theory Spec2Isabelle
  imports Main "HOL-Library.Sublist"
begin

section \<open>Symbolic expressions\<close>

text \<open>
  The program builds its formulas with sympy. A Quantity is a sympy symbol, so a formula is
  an expression tree whose symbols are Quantity objects. An object is identified by its
  address in the store of quantities. The tree is kept as it is written: sympy's automatic
  simplification is not part of the model.
\<close>

type_synonym addr = nat

datatype expr =
    Num int
  | Sym addr
  | Add expr expr
  | Mul expr expr
  | Pow expr expr
  | Fn string expr

fun symbols :: "expr \<Rightarrow> addr list" where
  "symbols (Num n) = []"
| "symbols (Sym a) = [a]"
| "symbols (Add l r) = symbols l @ symbols r"
| "symbols (Mul l r) = symbols l @ symbols r"
| "symbols (Pow l r) = symbols l @ symbols r"
| "symbols (Fn f x) = symbols x"

text \<open>\<open>expr.free_symbols\<close>: a set in Python, here the symbols without repetition.\<close>

definition free_symbols :: "expr \<Rightarrow> addr list" where
  "free_symbols e = remdups (symbols e)"

text \<open>\<open>expr.is_number\<close>: no free symbol.\<close>

definition is_number :: "expr \<Rightarrow> bool" where
  "is_number e = (free_symbols e = [])"

text \<open>\<open>expr.subs(q, content)\<close> for a symbol \<open>q\<close>.\<close>

fun subs :: "expr \<Rightarrow> addr \<Rightarrow> expr \<Rightarrow> expr" where
  "subs (Num n) q c = Num n"
| "subs (Sym a) q c = (if a = q then c else Sym a)"
| "subs (Add l r) q c = Add (subs l q c) (subs r q c)"
| "subs (Mul l r) q c = Mul (subs l q c) (subs r q c)"
| "subs (Pow l r) q c = Pow (subs l q c) (subs r q c)"
| "subs (Fn f x) q c = Fn f (subs x q c)"

section \<open>Arrays\<close>

text \<open>
  A numpy array of floats: its shape and its elements in row-major order. The element type
  is left open; only its product, its \<open>1\<close> and its \<open>0\<close> are used, and no law of
  arithmetic is assumed of them.
\<close>

record 'n ndarray =
  shape :: "nat list"
  flat :: "'n list"

definition wf_ndarray :: "'n ndarray \<Rightarrow> bool" where
  "wf_ndarray a = (length (flat a) = prod_list (shape a))"

text \<open>\<open>np.float_(f) * np.float_(a)\<close> for a scalar factor \<open>f\<close>.\<close>

definition scale :: "'n::times \<Rightarrow> 'n ndarray \<Rightarrow> 'n ndarray" where
  "scale f a = a\<lparr>flat := map (\<lambda>x. f * x) (flat a)\<rparr>"

text \<open>
  \<open>np.resize(a, new_shape)\<close> of numpy: the flattened array is repeated as often as needed
  and cut to the new size; an empty array or an empty new shape gives zeros.
\<close>

definition np_resize :: "'n::zero ndarray \<Rightarrow> nat list \<Rightarrow> 'n ndarray" where
  "np_resize a new_shape =
     (let new_size = prod_list new_shape in
      if length (flat a) = 0 \<or> new_size = 0
      then \<lparr>shape = new_shape, flat = replicate new_size 0\<rparr>
      else
        let repeats = (new_size + length (flat a) - 1) div length (flat a)
        in \<lparr>shape = new_shape, flat = take new_size (concat (replicate repeats (flat a)))\<rparr>)"

section \<open>Quantities\<close>

text \<open>
  A formula attribute of a Quantity holds a sympy expression or a Python string
  (Python does not type the attribute).
\<close>

datatype formula = Expression expr | Text string

record ('n, 'd, 'u) quantity =
  name :: string
  longname :: "string option"
  "value" :: "'n ndarray option"
  value_formula :: "formula option"
  error :: "'n ndarray option"
  error_formula :: "formula option"
  prefer_unit :: "'u option"
  dim :: "'d option"

text \<open>The objects that exist: the Quantity at address \<open>a\<close> is \<open>s ! a\<close>.\<close>

type_synonym ('n, 'd, 'u) store = "('n, 'd, 'u) quantity list"

section \<open>Failures\<close>

text \<open>The class of an exception that a collaborator raises.\<close>

datatype exn = ValueError | RuntimeError | OtherError

text \<open>
  The failures of the functions of \<open>core.py\<close>: the three \<open>RuntimeError\<close>s they raise
  themselves, with the values their messages print, a failed dictionary or sequence lookup,
  an attribute read on a symbol that is no Quantity, and an exception of a collaborator.
\<close>

datatype 'd failure =
    DimensionMismatch 'd 'd
  | ShapeMismatch "nat list" "nat list"
  | DimensionsNotFound
  | KeyError string
  | IndexError nat
  | NotAQuantity addr
  | Raised exn

definition lift :: "exn + 'a \<Rightarrow> 'd failure + 'a" where
  "lift r = (case r of Inl x \<Rightarrow> Inl (Raised x) | Inr v \<Rightarrow> Inr v)"

section \<open>Collaborators\<close>

text \<open>The arguments of \<open>fit\<close> that it only hands on to the fitting backend.\<close>

record fit_options =
  ydata_axes :: "nat list option"
  weighted :: "bool option"
  absolute_sigma :: bool

text \<open>
  \<open>core.py\<close> imports the unit parser, the Quantity class, the formula engine, the
  dimension solver and the fitting backend from modules that are not part of the sources
  at hand. They are parameters of the model. Each of them reads the store and returns a
  result or raises; \<open>dimensionless\<close> is \<open>Dimension()\<close>, \<open>dummy_name\<close> the name the
  Quantity class gives to a quantity created without one, \<open>np_float\<close> is \<open>np.float_\<close>
  on a sympy number.
\<close>

record ('n, 'd, 'u) collab =
  parse_unit :: "'u \<Rightarrow> exn + ('n \<times> 'd \<times> 'u)"
  dimensionless :: "'d"
  dummy_name :: "nat \<Rightarrow> string"
  np_float :: "expr \<Rightarrow> exn + 'n ndarray"
  get_value :: "('n, 'd, 'u) store \<Rightarrow> expr \<Rightarrow> exn + 'n ndarray"
  get_dimension :: "('n, 'd, 'u) store \<Rightarrow> expr \<Rightarrow> exn + 'd"
  get_error :: "('n, 'd, 'u) store \<Rightarrow> expr \<Rightarrow> exn + ('n ndarray \<times> expr)"
  dim_solve :: "('n, 'd, 'u) store \<Rightarrow> expr \<Rightarrow> 'd option \<Rightarrow> (string \<rightharpoonup> 'd option)
                  \<Rightarrow> exn + (string \<rightharpoonup> 'd)"
  fitting_fit :: "('n, 'd, 'u) store \<Rightarrow> expr \<Rightarrow> addr list \<Rightarrow> addr \<Rightarrow> addr list
                  \<Rightarrow> fit_options \<Rightarrow> exn + ('n ndarray list \<times> 'n ndarray list)"

text \<open>
  Modelled from the spec: the class \<open>Quantity\<close> is not among the sources. Section 3 of
  the specification gives its attributes and says that a Quantity without a name gets an
  auto-generated dummy name; a Quantity that comes from the constructor has no value, error,
  formula, unit or dimension yet. \<open>n\<close> is the number of objects in the store.
\<close>

definition Quantity :: "('n, 'd, 'u) collab \<Rightarrow> nat \<Rightarrow> string option \<Rightarrow> string option
    \<Rightarrow> ('n, 'd, 'u) quantity" where
  "Quantity env n nm lnm =
     \<lparr>name = (case nm of None \<Rightarrow> dummy_name env n | Some x \<Rightarrow> x),
      longname = lnm,
      value = None, value_formula = None, error = None, error_formula = None,
      prefer_unit = None, dim = None\<rparr>"

text \<open>
  Which object the constructor gives. \<open>core.py\<close> uses a Quantity as a sympy symbol
  (\<open>free_symbols\<close>, \<open>subs\<close>, \<open>has\<close>), and sympy keeps one symbol object for a class
  and a name: \<open>Quantity(name, longname)\<close> with the name of an existing Quantity is that
  very object, which the constructor initialises again. Without a name, or with a name that
  no Quantity has, the object is a new one, at the first free address.
\<close>

fun lookup_name :: "('n, 'd, 'u) store \<Rightarrow> string \<Rightarrow> addr option" where
  "lookup_name [] x = None"
| "lookup_name (q # s) x =
     (if name q = x then Some 0 else map_option Suc (lookup_name s x))"

definition Quantity_address :: "('n, 'd, 'u) store \<Rightarrow> string option \<Rightarrow> addr" where
  "Quantity_address s nm =
     (case nm of
        None \<Rightarrow> length s
      | Some x \<Rightarrow> (case lookup_name s x of None \<Rightarrow> length s | Some n \<Rightarrow> n))"

text \<open>The store in which the object at address \<open>n\<close> has the attributes \<open>q\<close>.\<close>

definition put_object ::
  "('n, 'd, 'u) store \<Rightarrow> addr \<Rightarrow> ('n, 'd, 'u) quantity \<Rightarrow> ('n, 'd, 'u) store" where
  "put_object s n q = (if n < length s then s[n := q] else s @ [q])"

section \<open>assign\<close>

text \<open>
  The \<open>value\<close> argument of \<open>assign\<close>: a sympy expression, or anything else that
  \<open>np.float_\<close> turns into an array (a number, a list, a string of a number), given as that
  array.
\<close>

datatype 'n pyvalue = Sympy expr | Array "'n ndarray"

record ('n, 'u) assign_args =
  value_arg :: "'n pyvalue"
  error_arg :: "'n ndarray option"
  unit_arg :: "'u option"
  name_arg :: "string option"
  longname_arg :: "string option"
  value_unit_arg :: "'u option"
  error_unit_arg :: "'u option"
  ignore_dim_arg :: bool

text \<open>The defaults of the signature of \<open>assign\<close>.\<close>

definition assign_defaults :: "'n pyvalue \<Rightarrow> ('n, 'u) assign_args" where
  "assign_defaults v =
     \<lparr>value_arg = v, error_arg = None, unit_arg = None, name_arg = None,
      longname_arg = None, value_unit_arg = None, error_unit_arg = None,
      ignore_dim_arg = False\<rparr>"

text \<open>
  Lines 35 to 61, "parse units". The result is
  \<open>(value_factor, value_dim, value_unit, error_factor, error_dim, error_unit)\<close>
  as the local variables stand after line 61.
\<close>

definition parse_units ::
  "('n::one, 'd, 'u) collab \<Rightarrow> 'u option \<Rightarrow> 'u option \<Rightarrow> 'u option
    \<Rightarrow> 'd failure + ('n \<times> 'd \<times> 'u option \<times> 'n \<times> 'd \<times> 'u option)" where
  "parse_units env unit value_unit error_unit =
     (case unit of
        Some u \<Rightarrow>
          (case lift (parse_unit env u) of
             Inl e \<Rightarrow> Inl e
           | Inr (f, d, c) \<Rightarrow> Inr (f, d, Some c, f, d, Some c))
      | None \<Rightarrow>
          (case (case value_unit of
                   None \<Rightarrow> Inr (1, dimensionless env, None)
                 | Some vu \<Rightarrow>
                     (case lift (parse_unit env vu) of
                        Inl e \<Rightarrow> Inl e
                      | Inr (f, d, c) \<Rightarrow> Inr (f, d, Some c))) of
             Inl e \<Rightarrow> Inl e
           | Inr (value_factor, value_dim, value_unit') \<Rightarrow>
               (case error_unit of
                  None \<Rightarrow>
                    Inr (value_factor, value_dim, value_unit', 1, dimensionless env, None)
                | Some eu \<Rightarrow>
                    (case lift (parse_unit env eu) of
                       Inl e \<Rightarrow> Inl e
                     | Inr (error_factor, error_dim, error_unit') \<Rightarrow>
                         if value_unit' \<noteq> None \<and> \<not> value_dim = error_dim
                         then Inl (DimensionMismatch value_dim error_dim)
                         else Inr (value_factor, value_dim, value_unit',
                                   error_factor, error_dim, Some error_unit')))))"

text \<open>
  Lines 63 to 84, "process value". The result is \<open>(value, value_formula, value_dim)\<close>
  as the local variables stand after line 84.
\<close>

definition process_value ::
  "('n::times, 'd, 'u) collab \<Rightarrow> ('n, 'd, 'u) store \<Rightarrow> 'n pyvalue \<Rightarrow> bool
    \<Rightarrow> 'n \<Rightarrow> 'd \<Rightarrow> 'u option \<Rightarrow> 'd failure + ('n ndarray \<times> expr option \<times> 'd)" where
  "process_value env s v ignore_dim value_factor value_dim value_unit =
     (case v of
        Sympy e \<Rightarrow>
          if \<not> is_number e then
            (case lift (get_value env s e) of
               Inl x \<Rightarrow> Inl x
             | Inr computed \<Rightarrow>
                 if ignore_dim then Inr (scale value_factor computed, Some e, value_dim)
                 else
                   (case lift (get_dimension env s e) of
                      Inl x \<Rightarrow> Inl x
                    | Inr calculated_dim \<Rightarrow>
                        if value_unit = None then Inr (computed, Some e, calculated_dim)
                        else if \<not> calculated_dim = value_dim
                        then Inl (DimensionMismatch value_dim calculated_dim)
                        else Inr (computed, Some e, value_dim)))
          else
            (case lift (np_float env e) of
               Inl x \<Rightarrow> Inl x
             | Inr a \<Rightarrow> Inr (scale value_factor a, None, value_dim))
      | Array a \<Rightarrow> Inr (scale value_factor a, None, value_dim))"

text \<open>
  Lines 86 to 104, "process error". The result is \<open>(error, error_formula)\<close>.
  \<open>value.shape[-len(error.shape):]\<close> is the whole of \<open>value.shape\<close> when the error has
  more axes than the value, which is what \<open>drop\<close> with the truncated difference gives.
\<close>

definition process_error ::
  "('n::{times,zero}, 'd, 'u) collab \<Rightarrow> ('n, 'd, 'u) store \<Rightarrow> 'n ndarray option \<Rightarrow> bool
    \<Rightarrow> 'n \<Rightarrow> 'n ndarray \<Rightarrow> expr option
    \<Rightarrow> 'd failure + ('n ndarray option \<times> expr option)" where
  "process_error env s err ignore_dim error_factor val val_formula =
     (case err of
        Some e \<Rightarrow>
          (let scaled = scale error_factor e in
           if shape scaled = []
              \<or> drop (length (shape val) - length (shape scaled)) (shape val) = shape scaled
           then Inr (Some (np_resize scaled (shape val)), None)
           else Inl (ShapeMismatch (shape val) (shape scaled)))
      | None \<Rightarrow>
          (case val_formula of
             Some f \<Rightarrow>
               (case lift (get_error env s f) of
                  Inl x \<Rightarrow> Inl x
                | Inr (propagated, propagated_formula) \<Rightarrow>
                    Inr (Some (if ignore_dim then scale error_factor propagated
                               else propagated),
                         Some propagated_formula))
           | None \<Rightarrow> Inr (None, None)))"

text \<open>
  \<open>assign\<close>, lines 14 to 118. It returns the Quantity, that is its address, or the
  failure, together with the store after the call. Line 107 is the only call of the
  constructor, after every statement that can raise; lines 108 to 116 set the attributes of
  the object it gave.
\<close>

definition assign ::
  "('n::{times,one,zero}, 'd, 'u) collab \<Rightarrow> ('n, 'u) assign_args \<Rightarrow> ('n, 'd, 'u) store
    \<Rightarrow> ('d failure + addr) \<times> ('n, 'd, 'u) store" where
  "assign env a s =
     (case parse_units env (unit_arg a) (value_unit_arg a) (error_unit_arg a) of
        Inl e \<Rightarrow> (Inl e, s)
      | Inr (value_factor, value_dim, value_unit, error_factor, error_dim, error_unit) \<Rightarrow>
          (case process_value env s (value_arg a) (ignore_dim_arg a)
                  value_factor value_dim value_unit of
             Inl e \<Rightarrow> (Inl e, s)
           | Inr (val, val_formula, value_dim') \<Rightarrow>
               (case process_error env s (error_arg a) (ignore_dim_arg a)
                       error_factor val val_formula of
                  Inl e \<Rightarrow> (Inl e, s)
                | Inr (err, err_formula) \<Rightarrow>
                    (let n = Quantity_address s (name_arg a);
                         q = Quantity env (length s) (name_arg a) (longname_arg a);
                         q = q\<lparr>value := Some val,
                                value_formula := map_option Expression val_formula,
                                error := err,
                                error_formula := map_option Expression err_formula,
                                prefer_unit := (if value_unit \<noteq> None then value_unit
                                                else error_unit),
                                dim := Some value_dim'\<rparr>
                     in (Inr n, put_object s n q)))))"

section \<open>fit\<close>

text \<open>
  \<open>fit\<close> changes Quantity objects in place, and it keeps what it changed when it raises:
  the model returns the store also with a failure. Beside the store the state has a log of
  the calls that \<open>fit\<close> makes to its collaborators, one entry at each call site; the log
  is no variable of the program.
\<close>

datatype call = GetDimension | DimSolve | FittingFit

record ('n, 'd, 'u) world =
  quantities :: "('n, 'd, 'u) store"
  calls :: "call list"

text \<open>Reading an attribute of the Quantity class on the symbol \<open>q\<close>.\<close>

definition lookup :: "('n, 'd, 'u) store \<Rightarrow> addr \<Rightarrow> 'd failure + ('n, 'd, 'u) quantity" where
  "lookup s q = (if q < length s then Inr (s ! q) else Inl (NotAQuantity q))"

text \<open>Lines 244 to 247: the \<open>try\<close> with its \<open>except (ValueError, RuntimeError)\<close>.\<close>

definition try_get_dimension ::
  "('n, 'd, 'u) collab \<Rightarrow> ('n, 'd, 'u) store \<Rightarrow> expr \<Rightarrow> 'd failure + 'd option" where
  "try_get_dimension env s func =
     (case get_dimension env s func of
        Inr d \<Rightarrow> Inr (Some d)
      | Inl x \<Rightarrow> if x = ValueError \<or> x = RuntimeError then Inr None else Inl (Raised x))"

text \<open>Lines 251 to 254: the dictionary \<open>known_dim\<close> of the symbols that are no parameters.\<close>

fun known_dimensions ::
  "('n, 'd, 'u) store \<Rightarrow> addr list \<Rightarrow> addr list \<Rightarrow> (string \<rightharpoonup> 'd option)
    \<Rightarrow> 'd failure + (string \<rightharpoonup> 'd option)" where
  "known_dimensions s params [] known_dim = Inr known_dim"
| "known_dimensions s params (q # qs) known_dim =
     (if \<not> q \<in> set params then
        (case lookup s q of
           Inl e \<Rightarrow> Inl e
         | Inr x \<Rightarrow> known_dimensions s params qs (known_dim(name x \<mapsto> dim x)))
      else known_dimensions s params qs known_dim)"

text \<open>Lines 257 to 260: "save dimensions to quantities".\<close>

fun save_dimensions ::
  "(string \<rightharpoonup> 'd) \<Rightarrow> addr list \<Rightarrow> ('n, 'd, 'u) store
    \<Rightarrow> ('d failure + unit) \<times> ('n, 'd, 'u) store" where
  "save_dimensions known_dim [] s = (Inr (), s)"
| "save_dimensions known_dim (q # qs) s =
     (case lookup s q of
        Inl e \<Rightarrow> (Inl e, s)
      | Inr x \<Rightarrow>
          (case known_dim (name x) of
             None \<Rightarrow> (Inl (KeyError (name x)), s)
           | Some d \<Rightarrow>
               if \<not> dim x = Some d
               then save_dimensions known_dim qs (s[q := x\<lparr>dim := Some d, prefer_unit := None\<rparr>])
               else save_dimensions known_dim qs s))"

text \<open>
  Lines 243 to 266, the body of \<open>if not ignore_dim\<close>. \<open>func\<close> and \<open>ydata\<close> are as they
  stand after lines 217 to 239, where \<open>ydata\<close> has become a Quantity.
\<close>

definition check_dimension ::
  "('n, 'd, 'u) collab \<Rightarrow> expr \<Rightarrow> addr \<Rightarrow> addr list \<Rightarrow> ('n, 'd, 'u) world
    \<Rightarrow> ('d failure + unit) \<times> ('n, 'd, 'u) world" where
  "check_dimension env func ydata params w =
     (let w1 = w\<lparr>calls := calls w @ [GetDimension]\<rparr> in
      case try_get_dimension env (quantities w1) func of
        Inl e \<Rightarrow> (Inl e, w1)
      | Inr func_dim \<Rightarrow>
          (case lookup (quantities w1) ydata of
             Inl e \<Rightarrow> (Inl e, w1)
           | Inr y \<Rightarrow>
               if \<not> func_dim = dim y then
                 (case known_dimensions (quantities w1) params (free_symbols func) Map.empty of
                    Inl e \<Rightarrow> (Inl e, w1)
                  | Inr known_dim \<Rightarrow>
                      (let w2 = w1\<lparr>calls := calls w1 @ [DimSolve]\<rparr> in
                       case lift (dim_solve env (quantities w2) func (dim y) known_dim) of
                         Inl e \<Rightarrow> (Inl e, w2)
                       | Inr solved \<Rightarrow>
                           (case save_dimensions solved (free_symbols func) (quantities w2) of
                              (Inl e, s3) \<Rightarrow> (Inl e, w2\<lparr>quantities := s3\<rparr>)
                            | (Inr u, s3) \<Rightarrow>
                                (let w3 = w2\<lparr>quantities := s3,
                                              calls := calls w2 @ [GetDimension]\<rparr> in
                                 case lift (get_dimension env s3 func) of
                                   Inl e \<Rightarrow> (Inl e, w3)
                                 | Inr func_dim' \<Rightarrow>
                                     (case lookup s3 ydata of
                                        Inl e \<Rightarrow> (Inl e, w3)
                                      | Inr y' \<Rightarrow>
                                          if \<not> Some func_dim' = dim y'
                                          then (Inl DimensionsNotFound, w3)
                                          else (Inr (), w3))))))
               else (Inr (), w1)))"

text \<open>
  Lines 272 to 276, "save results": \<open>i\<close> is the index that \<open>enumerate\<close> has reached.
  Each of the four assignments is a step of its own, so that a sequence of values or errors
  that is too short leaves the earlier assignments done.
\<close>

fun save_results ::
  "addr list \<Rightarrow> nat \<Rightarrow> 'n ndarray list \<Rightarrow> 'n ndarray list \<Rightarrow> ('n, 'd, 'u) store
    \<Rightarrow> ('d failure + unit) \<times> ('n, 'd, 'u) store" where
  "save_results [] i vals errs s = (Inr (), s)"
| "save_results (p # ps) i vals errs s =
     (if \<not> i < length vals then (Inl (IndexError i), s)
      else if \<not> p < length s then (Inl (NotAQuantity p), s)
      else
        (let s1 = s[p := (s ! p)\<lparr>value := Some (vals ! i)\<rparr>];
             s2 = s1[p := (s1 ! p)\<lparr>value_formula := Some (Text ''fit'')\<rparr>]
         in if \<not> i < length errs then (Inl (IndexError i), s2)
            else
              (let s3 = s2[p := (s2 ! p)\<lparr>error := Some (errs ! i)\<rparr>];
                   s4 = s3[p := (s3 ! p)\<lparr>error_formula := Some (Text ''fit'')\<rparr>]
               in save_results ps (Suc i) vals errs s4)))"

text \<open>
  \<open>fit\<close> from line 241 to line 276: the dimension check, the call of the fitting backend
  and the saving of its results. The lines before only bring \<open>func\<close>, \<open>xdata\<close> and
  \<open>ydata\<close> into the form used here, and the lines after only render the result.
\<close>

definition fit ::
  "('n, 'd, 'u) collab \<Rightarrow> expr \<Rightarrow> addr list \<Rightarrow> addr \<Rightarrow> addr list \<Rightarrow> fit_options \<Rightarrow> bool
    \<Rightarrow> ('n, 'd, 'u) world \<Rightarrow> ('d failure + unit) \<times> ('n, 'd, 'u) world" where
  "fit env func xdata ydata params opts ignore_dim w =
     (case (if \<not> ignore_dim then check_dimension env func ydata params w else (Inr (), w)) of
        (Inl e, w') \<Rightarrow> (Inl e, w')
      | (Inr u, w') \<Rightarrow>
          (let w2 = w'\<lparr>calls := calls w' @ [FittingFit]\<rparr> in
           case lift (fitting_fit env (quantities w2) func xdata ydata params opts) of
             Inl e \<Rightarrow> (Inl e, w2)
           | Inr (vals, errs) \<Rightarrow>
               (case save_results params 0 vals errs (quantities w2) of
                  (r, s') \<Rightarrow> (r, w2\<lparr>quantities := s'\<rparr>))))"

section \<open>Unpacking dependencies for plot\<close>

text \<open>
  \<^verbatim>\<open>_find_all_dependencies\<close>, lines 431 to 442. The function appends to the list \<open>ignore\<close> in place, so it returns the
  list beside its result: the caller's list has these elements afterwards. \<open>find_loop\<close> is
  the \<open>for\<close> loop over \<open>expr.free_symbols\<close>, with the symbols still to visit. The second
  conjunct of the \<open>if\<close> is read only when the first holds, and a formula that is absent or
  a string is no \<open>Expr\<close>.
\<close>

function find_all_dependencies ::
  "('n, 'd, 'u) store \<Rightarrow> expr \<Rightarrow> addr \<Rightarrow> addr list \<Rightarrow> ('d failure + expr) \<times> addr list"
and find_loop ::
  "('n, 'd, 'u) store \<Rightarrow> addr list \<Rightarrow> addr \<Rightarrow> expr \<Rightarrow> addr list
    \<Rightarrow> ('d failure + expr) \<times> addr list"
where
  "find_all_dependencies s e fnd ignore = find_loop s (free_symbols e) fnd e ignore"
| "find_loop s [] fnd unpacked ignore = (Inr unpacked, ignore)"
| "find_loop s (q # qs) fnd unpacked ignore =
     (if \<not> q \<in> set ignore then
        (case lookup s q of
           Inl e \<Rightarrow> (Inl e, ignore)
         | Inr x \<Rightarrow>
             (case value_formula x of
                Some (Expression f) \<Rightarrow>
                  (case find_all_dependencies s f fnd (ignore @ [q]) of
                     (Inl e, ignore') \<Rightarrow> (Inl e, ignore')
                   | (Inr content, ignore') \<Rightarrow>
                       find_loop s qs fnd
                         (if fnd \<in> set (free_symbols content) then subs unpacked q content
                          else unpacked)
                         ignore')
              | _ \<Rightarrow> find_loop s qs fnd unpacked ignore))
      else find_loop s qs fnd unpacked ignore)"
  by pat_completeness auto

text \<open>
  Every recursive call has one more quantity of the store in \<open>ignore\<close>, and the list never
  loses an element: the number of quantities outside \<open>ignore\<close> decreases.
\<close>

termination
proof -
  have mono:
    "find_all_dependencies_find_loop_dom (Inl (s, e, f, ig)) \<Longrightarrow>
       set ig \<subseteq> set (snd (find_all_dependencies s e f ig))"
    "find_all_dependencies_find_loop_dom (Inr (s, qs, f, u, ig)) \<Longrightarrow>
       set ig \<subseteq> set (snd (find_loop s qs f u ig))"
    for s :: "('n, 'd, 'u) store" and e f ig qs u
  proof (induct rule: find_all_dependencies_find_loop.pinduct)
    case (1 s e fnd ignore)
    then show ?case by (simp add: find_all_dependencies.psimps)
  next
    case (2 s fnd unpacked ignore)
    then show ?case by (simp add: find_loop.psimps)
  next
    case (3 s q qs fnd unpacked ignore)
    note dom = 3(1)
    show ?case
    proof (cases "q \<in> set ignore")
      case True
      with 3(6) dom show ?thesis by (simp add: find_loop.psimps)
    next
      case notin: False
      show ?thesis
      proof (cases "lookup s q")
        case (Inl e)
        with notin dom show ?thesis by (simp add: find_loop.psimps)
      next
        case found: (Inr b)
        show ?thesis
        proof (cases "value_formula b")
          case None
          with 3(2) [OF notin found] notin found dom show ?thesis
            by (simp add: find_loop.psimps)
        next
          case (Some x2)
          show ?thesis
          proof (cases x2)
            case (Text t)
            with 3(5) [OF notin found Some] notin found Some dom show ?thesis
              by (simp add: find_loop.psimps)
          next
            case (Expression x1)
            obtain r y where call: "find_all_dependencies s x1 fnd (ignore @ [q]) = (r, y)"
              by (cases "find_all_dependencies s x1 fnd (ignore @ [q])")
            from 3(3) [OF notin found Some Expression] call have sub: "set ignore \<subseteq> set y"
              by simp
            show ?thesis
            proof (cases r)
              case (Inl e)
              with sub call notin found Some Expression dom show ?thesis
                by (simp add: find_loop.psimps)
            next
              case (Inr ba)
              from 3(4) [OF notin found Some Expression call [symmetric, unfolded Inr] refl]
              have "set y \<subseteq> set (snd (find_loop s qs fnd
                   (if fnd \<in> set (free_symbols ba) then subs unpacked q ba else unpacked) y))" .
              with sub call notin found Some Expression Inr dom show ?thesis
                by (simp add: find_loop.psimps)
            qed
          qed
        qed
      qed
    qed
  qed
  show ?thesis
  proof (relation "inv_image
       (measure (\<lambda>(s, ig). card ({..<length s} - set ig)) <*lex*> measure id)
       (\<lambda>x. case x of
          Inl (s, e, f, ig) \<Rightarrow> ((s, ig), Suc (length (free_symbols e)))
        | Inr (s, qs, f, u, ig) \<Rightarrow> ((s, ig), length qs))", goal_cases)
    case 1
    then show ?case by auto
  next
    case (2 s e fnd ignore)
    then show ?case by simp
  next
    case (3 s q qs fnd unpacked ignore x)
    then show ?case by simp
  next
    case (4 s q qs fnd unpacked ignore x x2 x1)
    then have "q < length s" "q \<notin> set ignore"
      by (auto simp: lookup_def split: if_splits)
    then have "card ({..<length s} - set (ignore @ [q])) < card ({..<length s} - set ignore)"
      by (intro psubset_card_mono) auto
    then show ?case by simp
  next
    case (5 s q qs fnd unpacked ignore b x2 x1 x y ba)
    then have q: "q < length s" "q \<notin> set ignore"
      by (auto simp: lookup_def split: if_splits)
    from 5 mono(1) [of s x1 fnd "ignore @ [q]"] have "set (ignore @ [q]) \<subseteq> set y"
      by (metis snd_conv)
    with q have "card ({..<length s} - set y) < card ({..<length s} - set ignore)"
      by (intro psubset_card_mono) auto
    then show ?case by simp
  next
    case 6
    then show ?case by simp
  next
    case 7
    then show ?case by simp
  qed
qed

text \<open>
  Line 431 builds the default value of \<open>ignore\<close> once, when the function is defined, and
  every call without the argument gets that one list: line 361 in \<open>plot\<close> is such a call.
  The list is part of the state; it is empty when the module is loaded.
\<close>

definition default_ignore_at_load :: "addr list" where
  "default_ignore_at_load = []"

definition find_all_dependencies_default ::
  "('n, 'd, 'u) store \<Rightarrow> expr \<Rightarrow> addr \<Rightarrow> addr list \<Rightarrow> ('d failure + expr) \<times> addr list" where
  "find_all_dependencies_default s e fnd default_ignore =
     find_all_dependencies s e fnd default_ignore"

section \<open>Notions of the specification\<close>




text \<open>
  What the dimension solver's solution means for the store: every quantity among the
  symbols \<open>syms\<close> whose dimension differs from the solved one gets the solved dimension
  and loses its preferred unit; every other quantity stays as it is.
\<close>

definition apply_solution ::
  "(string \<rightharpoonup> 'd) \<Rightarrow> addr list \<Rightarrow> ('n, 'd, 'u) store \<Rightarrow> ('n, 'd, 'u) store" where
  "apply_solution solved syms s =
     map (\<lambda>a. if a \<in> set syms \<and> \<not> dim (s ! a) = solved (name (s ! a))
              then (s ! a)\<lparr>dim := solved (name (s ! a)), prefer_unit := None\<rparr>
              else s ! a)
         [0..<length s]"

text \<open>
  The formula attributes as section 3 of the specification describes them: the value
  formula an expression or absent, the error formula an expression, the string \<open>fit\<close> or
  absent.
\<close>

definition no_text :: "formula option \<Rightarrow> bool" where
  "no_text f = (case f of Some (Text t) \<Rightarrow> False | _ \<Rightarrow> True)"

definition fit_text_only :: "formula option \<Rightarrow> bool" where
  "fit_text_only f = (case f of Some (Text t) \<Rightarrow> t = ''fit'' | _ \<Rightarrow> True)"

definition formulas_as_specified :: "('n, 'd, 'u) quantity \<Rightarrow> bool" where
  "formulas_as_specified q = (no_text (value_formula q) \<and> fit_text_only (error_formula q))"

text \<open>The formula attributes as the program keeps them: both may also be the string \<open>fit\<close>.\<close>

definition formulas_as_stored :: "('n, 'd, 'u) quantity \<Rightarrow> bool" where
  "formulas_as_stored q =
     (fit_text_only (value_formula q) \<and> fit_text_only (error_formula q))"




section \<open>A small instance of the collaborators\<close>

text \<open>
  To run the model on concrete inputs: integers for the numbers, the exponents of length
  and time for a dimension, strings for units, and the simplest collaborators that behave
  like the real ones on the inputs used below.
\<close>

definition scalar :: "'n \<Rightarrow> 'n ndarray" where
  "scalar x = \<lparr>shape = [], flat = [x]\<rparr>"

definition demo_parse_unit :: "string \<Rightarrow> exn + (int \<times> int list \<times> string)" where
  "demo_parse_unit u =
     (if u = ''m'' then Inr (1, [1, 0], ''m'')
      else if u = ''km'' then Inr (1000, [1, 0], ''km'')
      else if u = ''s'' then Inr (1, [0, 1], ''s'')
      else Inl ValueError)"

fun demo_value :: "(int, int list, string) store \<Rightarrow> expr \<Rightarrow> exn + int ndarray" where
  "demo_value s (Num n) = Inr (scalar n)"
| "demo_value s (Sym a) =
     (if a < length s then (case value (s ! a) of Some v \<Rightarrow> Inr v | None \<Rightarrow> Inl OtherError)
      else Inl OtherError)"
| "demo_value s (Add l r) =
     (case (demo_value s l, demo_value s r) of
        (Inr a, Inr b) \<Rightarrow>
          if shape a = shape b
          then Inr \<lparr>shape = shape a, flat = map2 (+) (flat a) (flat b)\<rparr>
          else Inl ValueError
      | (Inl x, _) \<Rightarrow> Inl x
      | (_, Inl x) \<Rightarrow> Inl x)"
| "demo_value s (Mul l r) =
     (case (demo_value s l, demo_value s r) of
        (Inr a, Inr b) \<Rightarrow>
          if shape a = shape b
          then Inr \<lparr>shape = shape a, flat = map2 (*) (flat a) (flat b)\<rparr>
          else Inl ValueError
      | (Inl x, _) \<Rightarrow> Inl x
      | (_, Inl x) \<Rightarrow> Inl x)"
| "demo_value s (Pow l r) = Inl OtherError"
| "demo_value s (Fn f x) = Inl OtherError"

fun demo_dimension :: "(int, int list, string) store \<Rightarrow> expr \<Rightarrow> exn + int list" where
  "demo_dimension s (Num n) = Inr [0, 0]"
| "demo_dimension s (Sym a) =
     (if a < length s then (case dim (s ! a) of Some d \<Rightarrow> Inr d | None \<Rightarrow> Inl ValueError)
      else Inl OtherError)"
| "demo_dimension s (Add l r) =
     (case (demo_dimension s l, demo_dimension s r) of
        (Inr a, Inr b) \<Rightarrow> if a = b then Inr a else Inl RuntimeError
      | (Inl x, _) \<Rightarrow> Inl x
      | (_, Inl x) \<Rightarrow> Inl x)"
| "demo_dimension s (Mul l r) =
     (case (demo_dimension s l, demo_dimension s r) of
        (Inr a, Inr b) \<Rightarrow> Inr (map2 (+) a b)
      | (Inl x, _) \<Rightarrow> Inl x
      | (_, Inl x) \<Rightarrow> Inl x)"
| "demo_dimension s (Pow l r) = Inl OtherError"
| "demo_dimension s (Fn f x) = Inl OtherError"

definition demo_error ::
  "(int, int list, string) store \<Rightarrow> expr \<Rightarrow> exn + (int ndarray \<times> expr)" where
  "demo_error s e =
     (case demo_value s e of
        Inl x \<Rightarrow> Inl x
      | Inr v \<Rightarrow> Inr (v\<lparr>flat := map (\<lambda>x. 1) (flat v)\<rparr>, Fn ''sigma'' e))"

definition demo_dim_solve ::
  "(int, int list, string) store \<Rightarrow> expr \<Rightarrow> int list option \<Rightarrow> (string \<rightharpoonup> int list option)
    \<Rightarrow> exn + (string \<rightharpoonup> int list)" where
  "demo_dim_solve s func target known =
     (case (func, target) of
        (Mul (Sym p) (Sym x), Some t) \<Rightarrow>
          if p < length s \<and> x < length s then
            (case known (name (s ! x)) of
               Some (Some dx) \<Rightarrow>
                 Inr [name (s ! x) \<mapsto> dx, name (s ! p) \<mapsto> map2 (-) t dx]
             | _ \<Rightarrow> Inl RuntimeError)
          else Inl RuntimeError
      | _ \<Rightarrow> Inl RuntimeError)"

definition demo_env :: "(int, int list, string) collab" where
  "demo_env =
     \<lparr>parse_unit = demo_parse_unit,
      dimensionless = [0, 0],
      dummy_name = (\<lambda>n. ''NoName''),
      np_float = (\<lambda>e. case e of Num n \<Rightarrow> Inr (scalar n) | _ \<Rightarrow> Inl OtherError),
      get_value = demo_value,
      get_dimension = demo_dimension,
      get_error = demo_error,
      dim_solve = demo_dim_solve,
      fitting_fit = (\<lambda>s func xdata ydata params opts.
         Inr (map (\<lambda>p. scalar 2) params, map (\<lambda>p. scalar 1) params))\<rparr>"

text \<open>A quantity as \<open>assign\<close> leaves it: a directly given value, no error.\<close>

definition demo_quantity ::
  "string \<Rightarrow> int ndarray \<Rightarrow> int list \<Rightarrow> string option \<Rightarrow> (int, int list, string) quantity" where
  "demo_quantity nm v d u =
     \<lparr>name = nm, longname = None, value = Some v, value_formula = None, error = None,
      error_formula = None, prefer_unit = u, dim = Some d\<rparr>"

text \<open>
  Three quantities: \<open>x = 2 m\<close> at address 0, \<open>q = x * 2\<close> computed from it at address 1,
  and the empty quantity \<open>k\<close> at address 2, as \<open>params\<close> creates it.
\<close>

definition demo_store :: "(int, int list, string) store" where
  "demo_store =
     [demo_quantity ''x'' (scalar 2) [1, 0] (Some ''m''),
      (demo_quantity ''q'' (scalar 4) [1, 0] None)
         \<lparr>value_formula := Some (Expression (Mul (Sym 0) (Num 2)))\<rparr>,
      Quantity demo_env 2 (Some ''k'') None]"

text \<open>
  A fit of \<open>k * x\<close> to the data \<open>q\<close> over \<open>x\<close> with the parameter \<open>k\<close>, in the state
  where nothing has been called yet.
\<close>

definition demo_options :: fit_options where
  "demo_options = \<lparr>ydata_axes = None, weighted = None, absolute_sigma = False\<rparr>"

definition demo_world :: "(int, int list, string) world" where
  "demo_world = \<lparr>quantities = demo_store, calls = []\<rparr>"

text \<open>
  The same collaborators with a solver that answers with a length for \<open>k\<close>, which does
  not make \<open>k * x\<close> a length.
\<close>

definition demo_env_wrong_solver :: "(int, int list, string) collab" where
  "demo_env_wrong_solver =
     demo_env\<lparr>dim_solve := (\<lambda>s func target known.
                               Inr [''x'' \<mapsto> [1, 0], ''k'' \<mapsto> [1, 0]])\<rparr>"

section \<open>Facts about the parts of assign\<close>

lemmas assign_unfold =
  assign_def parse_units_def process_value_def process_error_def lift_def

lemmas demo_unfold =
  demo_env_def demo_parse_unit_def demo_store_def demo_quantity_def scalar_def
  demo_error_def assign_defaults_def Quantity_def free_symbols_def is_number_def
  scale_def np_resize_def Quantity_address_def put_object_def

lemma lookup_name_Some:
  "lookup_name s x = Some n \<Longrightarrow> n < length s \<and> name (s ! n) = x"
  by (induction s arbitrary: n) (auto split: if_splits)

lemma Quantity_address_le: "Quantity_address s nm \<le> length s"
  by (auto simp: Quantity_address_def dest: lookup_name_Some split: option.splits)

lemma Quantity_address_None: "Quantity_address s None = length s"
  by (simp add: Quantity_address_def)

lemma put_object_at: "put_object s (Quantity_address s nm) q ! Quantity_address s nm = q"
  using Quantity_address_le [of s nm] by (auto simp: put_object_def)




lemma set_put_object: "set (put_object s n q) \<subseteq> insert q (set s)"
  by (auto simp: put_object_def dest: set_update_subset_insert [THEN subsetD])

text \<open>
  What a successful call went through: the three parts succeeded, and the attributes of
  the Quantity it returns are their results.
\<close>

lemma assign_Inr:
  assumes "assign env a s = (Inr n, s')"
  obtains vf vd vu ef ed eu val vform vd' err eform where
    "parse_units env (unit_arg a) (value_unit_arg a) (error_unit_arg a)
       = Inr (vf, vd, vu, ef, ed, eu)"
    and "process_value env s (value_arg a) (ignore_dim_arg a) vf vd vu = Inr (val, vform, vd')"
    and "process_error env s (error_arg a) (ignore_dim_arg a) ef val vform = Inr (err, eform)"
    and "n = Quantity_address s (name_arg a)"
    and "s' = put_object s n (s' ! n)"
    and "name (s' ! n) = (case name_arg a of None \<Rightarrow> dummy_name env (length s) | Some x \<Rightarrow> x)"
    and "longname (s' ! n) = longname_arg a"
    and "value (s' ! n) = Some val"
    and "value_formula (s' ! n) = map_option Expression vform"
    and "error (s' ! n) = err"
    and "error_formula (s' ! n) = map_option Expression eform"
    and "prefer_unit (s' ! n) = (if vu \<noteq> None then vu else eu)"
    and "dim (s' ! n) = Some vd'"
  using assms
  by (auto simp: assign_def Let_def Quantity_def put_object_at
           split: sum.splits prod.splits)

lemma assign_Inl: "assign env a s = (Inl e, s') \<Longrightarrow> s' = s"
  by (auto simp: assign_def Let_def split: sum.splits prod.splits)

lemma assign_parts:
  assumes "parse_units env (unit_arg a) (value_unit_arg a) (error_unit_arg a)
       = Inr (vf, vd, vu, ef, ed, eu)"
    and "process_value env s (value_arg a) (ignore_dim_arg a) vf vd vu = Inr (val, vform, vd')"
    and "process_error env s (error_arg a) (ignore_dim_arg a) ef val vform = Inr (err, eform)"
  shows "\<exists>s'. assign env a s = (Inr (Quantity_address s (name_arg a)), s')"
  using assms by (simp add: assign_def Let_def)

lemma trailing_shape_iff:
  "(es = [] \<or> drop (length vs - length es) vs = es) \<longleftrightarrow> suffix es vs"
proof
  assume "es = [] \<or> drop (length vs - length es) vs = es"
  then show "suffix es vs"
  proof
    assume "es = []"
    then show ?thesis by simp
  next
    assume "drop (length vs - length es) vs = es"
    then have "vs = take (length vs - length es) vs @ es"
      by (metis append_take_drop_id)
    then show ?thesis by (metis suffixI)
  qed
next
  assume "suffix es vs"
  then obtain lead where "vs = lead @ es" by (auto simp: suffix_def)
  then show "es = [] \<or> drop (length vs - length es) vs = es" by simp
qed

lemma concat_replicate_length: "length (concat (replicate k xs)) = k * length xs"
  by (induction k) auto

lemma ceil_div_exact: "0 < n \<Longrightarrow> (k * n + n - 1) div n = (k::nat)"
proof -
  assume pos: "0 < n"
  then obtain m where m: "n = Suc m" by (cases n) auto
  then have "k * n + n - 1 = m + k * n" by simp
  moreover have "(m + k * n) div n = k"
  proof -
    have "(m + k * n) div n = m div n + k" using pos by simp
    also have "m div n = 0" using m by simp
    finally show ?thesis by simp
  qed
  ultimately show ?thesis by simp
qed

text \<open>
  Resizing an array to a shape that ends in the array's own shape repeats the array once
  for every index of the leading axes.
\<close>

lemma np_resize_trailing:
  assumes "length xs = prod_list es"
  shows "np_resize \<lparr>shape = es, flat = xs\<rparr> (lead @ es)
           = \<lparr>shape = lead @ es, flat = concat (replicate (prod_list lead) xs)\<rparr>"
proof (cases "length xs = 0 \<or> prod_list lead = 0")
  case True
  then have "concat (replicate (prod_list lead) xs) = []" by auto
  with True assms show ?thesis by (auto simp: np_resize_def)
next
  case False
  then have n: "0 < length xs" by auto
  have "(prod_list lead * length xs + length xs - 1) div length xs = prod_list lead"
    using n by (rule ceil_div_exact)
  with False assms show ?thesis
    by (simp add: np_resize_def Let_def concat_replicate_length)
qed






lemma scale_explicit: "scale f a = \<lparr>shape = shape a, flat = map (\<lambda>x. f * x) (flat a)\<rparr>"
  by (simp add: scale_def)

text \<open>The result of "process error" for an explicit error.\<close>

lemma process_error_given:
  assumes "process_error env s (Some e) ig ef val vform = Inr (err, eform)"
  shows "eform = None
     \<and> err = Some (np_resize \<lparr>shape = shape e, flat = map (\<lambda>x. ef * x) (flat e)\<rparr> (shape val))
     \<and> (wf_ndarray e \<longrightarrow>
          err = Some \<lparr>shape = shape val,
                      flat = concat (replicate
                        (prod_list (take (length (shape val) - length (shape e)) (shape val)))
                        (map (\<lambda>x. ef * x) (flat e)))\<rparr>)"
proof -
  have sc: "scale ef e = \<lparr>shape = shape e, flat = map (\<lambda>x. ef * x) (flat e)\<rparr>"
    by (rule scale_explicit)
  from assms have cond:
    "shape e = [] \<or> drop (length (shape val) - length (shape e)) (shape val) = shape e"
    and res: "eform = None" "err = Some (np_resize (scale ef e) (shape val))"
    by (auto simp: process_error_def Let_def scale_def split: if_splits)
  from cond have "suffix (shape e) (shape val)"
    by (simp add: trailing_shape_iff)
  then obtain lead where lead: "shape val = lead @ shape e"
    by (auto simp: suffix_def)
  have "np_resize (scale ef e) (shape val)
          = \<lparr>shape = shape val,
             flat = concat (replicate (prod_list lead) (map (\<lambda>x. ef * x) (flat e)))\<rparr>"
    if "wf_ndarray e"
    using that np_resize_trailing [of "map (\<lambda>x. ef * x) (flat e)" "shape e" lead]
    by (simp add: sc lead wf_ndarray_def)
  moreover have "take (length (shape val) - length (shape e)) (shape val) = lead"
    by (simp add: lead)
  ultimately show ?thesis
    using res by (simp add: sc)
qed

text \<open>The result of "process error" without an explicit error.\<close>

lemma process_error_absent:
  assumes "process_error env s None ig ef val vform = Inr (err, eform)"
  shows "(\<forall>f. vform = Some f \<longrightarrow>
            (\<exists>p pf. get_error env s f = Inr (p, pf)
               \<and> err = Some (if ig then \<lparr>shape = shape p, flat = map (\<lambda>x. ef * x) (flat p)\<rparr>
                              else p)
               \<and> eform = Some pf))
       \<and> (vform = None \<longrightarrow> err = None \<and> eform = None)"
  using assms
  by (auto simp: process_error_def lift_def scale_def
           split: sum.splits prod.splits option.splits)

text \<open>The result of "process value".\<close>

lemma process_value_result:
  assumes "process_value env s v ig vf vd vu = Inr (val, vform, vd')"
  shows "(\<forall>x. v = Array x \<longrightarrow>
            val = \<lparr>shape = shape x, flat = map (\<lambda>y. vf * y) (flat x)\<rparr>
          \<and> vform = None \<and> vd' = vd)
       \<and> (\<forall>e. v = Sympy e \<and> is_number e \<longrightarrow>
            (\<exists>x. np_float env e = Inr x
               \<and> val = \<lparr>shape = shape x, flat = map (\<lambda>y. vf * y) (flat x)\<rparr>)
          \<and> vform = None \<and> vd' = vd)
       \<and> (\<forall>e. v = Sympy e \<and> \<not> is_number e \<longrightarrow>
            (\<exists>x. get_value env s e = Inr x
               \<and> val = (if ig then \<lparr>shape = shape x, flat = map (\<lambda>y. vf * y) (flat x)\<rparr>
                        else x))
          \<and> vform = Some e
          \<and> (ig \<longrightarrow> vd' = vd)
          \<and> (\<not> ig \<longrightarrow> (\<exists>cd. get_dimension env s e = Inr cd \<and> vd' = cd
                               \<and> (vu \<noteq> None \<longrightarrow> cd = vd))))"
  using assms
  by (auto simp: process_value_def lift_def scale_def
           split: sum.splits prod.splits option.splits if_splits)

section \<open>The claims about assign\<close>




text \<open>
  Claim C9. With only an error unit (no unit, no value unit) and a literal value, the new
  Quantity is dimensionless whatever the dimension of the error unit is, and the call never
  fails with a dimension mismatch; all the same the error is scaled by the factor of the
  error unit and the error unit becomes the preferred unit.
\<close>

theorem assign_error_unit_only:
  assumes "unit_arg a = None" and "value_unit_arg a = None" and "error_unit_arg a = Some eu"
    and "value_arg a = Array v"
    and "parse_unit env eu = Inr (f, d, c)"
    and "assign env a s = (r, s')"
  shows "(\<forall>d1 d2. r \<noteq> Inl (DimensionMismatch d1 d2))
     \<and> (error_arg a = None \<longrightarrow> r = Inr (Quantity_address s (name_arg a)))
     \<and> (\<forall>n. r = Inr n \<longrightarrow>
           dim (s' ! n) = Some (dimensionless env)
         \<and> prefer_unit (s' ! n) = Some c
         \<and> value (s' ! n) = Some (scale 1 v)
         \<and> error (s' ! n) = map_option (\<lambda>e. np_resize (scale f e) (shape v)) (error_arg a))"
  using assms
  by (auto simp: assign_unfold Let_def scale_def Quantity_def put_object_at
           split: sum.splits prod.splits option.splits if_splits)

text \<open>The value 5 with the error 2 given in kilometres: a dimensionless 5 with error 2000.\<close>

theorem assign_error_unit_only_witness:
  "parse_unit demo_env ''km'' = Inr (1000, [1, 0], ''km'')
   \<and> (\<exists>q. assign demo_env
              ((assign_defaults (Array (scalar 5)))
                 \<lparr>error_arg := Some (scalar 2), error_unit_arg := Some ''km''\<rparr>) []
            = (Inr 0, [q])
          \<and> dim q = Some [0, 0] \<and> prefer_unit q = Some ''km''
          \<and> error q = Some (scalar 2000))"
proof -
  let ?a = "(assign_defaults (Array (scalar 5)))
              \<lparr>error_arg := Some (scalar 2), error_unit_arg := Some ''km''\<rparr>
            :: (int, string) assign_args"
  have p: "parse_unit demo_env ''km'' = Inr (1000, [1, 0], ''km'')"
    by (simp add: demo_env_def demo_parse_unit_def)
  obtain q where ev: "assign demo_env ?a [] = (Inr 0, [q])"
    by (simp add: assign_unfold demo_unfold)
  have "dim ([q] ! 0) = Some (dimensionless demo_env)
      \<and> prefer_unit ([q] ! 0) = Some ''km''
      \<and> error ([q] ! 0)
          = map_option (\<lambda>e. np_resize (scale 1000 e) (shape (scalar (5::int))))
              (error_arg ?a)"
    using assign_error_unit_only [OF _ _ _ _ p ev, of "scalar 5"]
    by (simp add: assign_defaults_def)
  then have "dim q = Some [0, 0] \<and> prefer_unit q = Some ''km'' \<and> error q = Some (scalar 2000)"
    by (simp add: demo_env_def assign_defaults_def scale_def np_resize_def scalar_def)
  with p ev show ?thesis by blast
qed

text \<open>
  Claim C3 as it is stated fails in its second half: with a combined unit the scale factor
  is not always applied to value and error alike. A value computed from a formula is
  multiplied by the factor only when dimension checking is disabled (lines 70 to 80),
  while an explicit error is always multiplied by it (line 88). Here
  \<open>assign(x, error = 3, unit = 'km')\<close> with \<open>x = 2 m\<close>: the stored value is the computed
  2, the stored error is 3000.
\<close>

theorem assign_unit_resolution_counterexample:
  "parse_unit demo_env ''km'' = Inr (1000, [1, 0], ''km'')
   \<and> get_value demo_env demo_store (Sym 0) = Inr (scalar 2)
   \<and> fst (assign demo_env
             ((assign_defaults (Sympy (Sym 0)))
                \<lparr>error_arg := Some (scalar 3), unit_arg := Some ''km''\<rparr>) demo_store) = Inr 3
   \<and> value (snd (assign demo_env
             ((assign_defaults (Sympy (Sym 0)))
                \<lparr>error_arg := Some (scalar 3), unit_arg := Some ''km''\<rparr>) demo_store) ! 3)
       = Some (scalar 2)
   \<and> error (snd (assign demo_env
             ((assign_defaults (Sympy (Sym 0)))
                \<lparr>error_arg := Some (scalar 3), unit_arg := Some ''km''\<rparr>) demo_store) ! 3)
       = Some (scalar 3000)
   \<and> scalar 2 \<noteq> scale 1000 (scalar (2 :: int))
   \<and> scalar 3000 = scale 1000 (scalar (3 :: int))"
  by (simp add: assign_unfold demo_unfold)

text \<open>
  Claim C3, amended. When a value unit and an error unit are given separately and they
  resolve to unequal dimensions, \<open>assign\<close> fails with the dimension mismatch of these two
  dimensions and changes nothing. When one combined unit is given, it resolves to one
  factor \<open>f\<close>, one dimension \<open>d\<close> and one canonical expression \<open>c\<close> for the value and for
  the error; the parsing of the units then never reports a mismatch, and separately given
  units do not matter. On success the Quantity has the dimension \<open>d\<close> and the preferred
  unit \<open>c\<close>; a literal value and an explicit error are each multiplied by \<open>f\<close>; a value
  computed from a formula, and the error propagated for it, are multiplied by \<open>f\<close> when
  dimension checking is disabled and stored as computed when it is enabled. A literal value
  with a combined unit and without an error always succeeds.
\<close>

theorem assign_unit_resolution:
  "(unit_arg a = None \<and> value_unit_arg a = Some vu \<and> error_unit_arg a = Some eu
      \<and> parse_unit env vu = Inr (f1, d1, c1) \<and> parse_unit env eu = Inr (f2, d2, c2)
      \<and> d1 \<noteq> d2
     \<longrightarrow> assign env a s = (Inl (DimensionMismatch d1 d2), s))
   \<and> (unit_arg a = Some u \<longrightarrow>
        (\<forall>d1 d2. parse_units env (unit_arg a) (value_unit_arg a) (error_unit_arg a)
                   \<noteq> Inl (DimensionMismatch d1 d2))
      \<and> (\<forall>f d c. parse_unit env u = Inr (f, d, c) \<longrightarrow>
            parse_units env (unit_arg a) (value_unit_arg a) (error_unit_arg a)
              = Inr (f, d, Some c, f, d, Some c))
      \<and> assign env a s = assign env (a\<lparr>value_unit_arg := None, error_unit_arg := None\<rparr>) s)
   \<and> (\<forall>f d c n s'.
        unit_arg a = Some u \<and> parse_unit env u = Inr (f, d, c)
        \<and> assign env a s = (Inr n, s') \<longrightarrow>
          dim (s' ! n) = Some d \<and> prefer_unit (s' ! n) = Some c
        \<and> (\<forall>v. value_arg a = Array v \<longrightarrow>
              value (s' ! n) = Some \<lparr>shape = shape v, flat = map (\<lambda>x. f * x) (flat v)\<rparr>)
        \<and> (\<forall>e. value_arg a = Sympy e \<and> is_number e \<longrightarrow>
              (\<exists>v. np_float env e = Inr v
                 \<and> value (s' ! n)
                     = Some \<lparr>shape = shape v, flat = map (\<lambda>x. f * x) (flat v)\<rparr>))
        \<and> (\<forall>e. value_arg a = Sympy e \<and> \<not> is_number e \<longrightarrow>
              (\<exists>v. get_value env s e = Inr v
                 \<and> value (s' ! n)
                     = Some (if ignore_dim_arg a
                             then \<lparr>shape = shape v, flat = map (\<lambda>x. f * x) (flat v)\<rparr>
                             else v)))
        \<and> (\<forall>e. error_arg a = Some e \<longrightarrow>
              (\<exists>v. value (s' ! n) = Some v
                 \<and> error (s' ! n)
                     = Some (np_resize \<lparr>shape = shape e, flat = map (\<lambda>x. f * x) (flat e)\<rparr>
                               (shape v))))
        \<and> (\<forall>e. error_arg a = None \<and> value_arg a = Sympy e \<and> \<not> is_number e \<longrightarrow>
              (\<exists>p pf. get_error env s e = Inr (p, pf)
                 \<and> error (s' ! n)
                     = Some (if ignore_dim_arg a
                             then \<lparr>shape = shape p, flat = map (\<lambda>x. f * x) (flat p)\<rparr>
                             else p))))
   \<and> (\<forall>f d c v.
        unit_arg a = Some u \<and> parse_unit env u = Inr (f, d, c)
        \<and> value_arg a = Array v \<and> error_arg a = None \<longrightarrow>
          (\<exists>s'. assign env a s = (Inr (Quantity_address s (name_arg a)), s')))"
proof -
  have 1: "unit_arg a = None \<and> value_unit_arg a = Some vu \<and> error_unit_arg a = Some eu
      \<and> parse_unit env vu = Inr (f1, d1, c1) \<and> parse_unit env eu = Inr (f2, d2, c2)
      \<and> d1 \<noteq> d2
     \<longrightarrow> assign env a s = (Inl (DimensionMismatch d1 d2), s)"
    by (auto simp: assign_unfold)
  have 2: "unit_arg a = Some u \<longrightarrow>
        (\<forall>d1 d2. parse_units env (unit_arg a) (value_unit_arg a) (error_unit_arg a)
                   \<noteq> Inl (DimensionMismatch d1 d2))
      \<and> (\<forall>f d c. parse_unit env u = Inr (f, d, c) \<longrightarrow>
            parse_units env (unit_arg a) (value_unit_arg a) (error_unit_arg a)
              = Inr (f, d, Some c, f, d, Some c))
      \<and> assign env a s = assign env (a\<lparr>value_unit_arg := None, error_unit_arg := None\<rparr>) s"
    by (auto simp: assign_unfold split: sum.splits prod.splits option.splits)
  have 3: "dim (s' ! n) = Some d \<and> prefer_unit (s' ! n) = Some c
        \<and> (\<forall>v. value_arg a = Array v \<longrightarrow>
              value (s' ! n) = Some \<lparr>shape = shape v, flat = map (\<lambda>x. f * x) (flat v)\<rparr>)
        \<and> (\<forall>e. value_arg a = Sympy e \<and> is_number e \<longrightarrow>
              (\<exists>v. np_float env e = Inr v
                 \<and> value (s' ! n)
                     = Some \<lparr>shape = shape v, flat = map (\<lambda>x. f * x) (flat v)\<rparr>))
        \<and> (\<forall>e. value_arg a = Sympy e \<and> \<not> is_number e \<longrightarrow>
              (\<exists>v. get_value env s e = Inr v
                 \<and> value (s' ! n)
                     = Some (if ignore_dim_arg a
                             then \<lparr>shape = shape v, flat = map (\<lambda>x. f * x) (flat v)\<rparr>
                             else v)))
        \<and> (\<forall>e. error_arg a = Some e \<longrightarrow>
              (\<exists>v. value (s' ! n) = Some v
                 \<and> error (s' ! n)
                     = Some (np_resize \<lparr>shape = shape e, flat = map (\<lambda>x. f * x) (flat e)\<rparr>
                               (shape v))))
        \<and> (\<forall>e. error_arg a = None \<and> value_arg a = Sympy e \<and> \<not> is_number e \<longrightarrow>
              (\<exists>p pf. get_error env s e = Inr (p, pf)
                 \<and> error (s' ! n)
                     = Some (if ignore_dim_arg a
                             then \<lparr>shape = shape p, flat = map (\<lambda>x. f * x) (flat p)\<rparr>
                             else p)))"
    if u: "unit_arg a = Some u" and p: "parse_unit env u = Inr (f, d, c)"
      and run: "assign env a s = (Inr n, s')" for f d c n s'
  proof -
    from u p have pu: "parse_units env (unit_arg a) (value_unit_arg a) (error_unit_arg a)
              = Inr (f, d, Some c, f, d, Some c)"
      by (simp add: parse_units_def lift_def)
    from run pu obtain val vform vd' err eform where
      pv: "process_value env s (value_arg a) (ignore_dim_arg a) f d (Some c)
             = Inr (val, vform, vd')"
      and pe: "process_error env s (error_arg a) (ignore_dim_arg a) f val vform
             = Inr (err, eform)"
      and fields: "value (s' ! n) = Some val" "error (s' ! n) = err"
        "prefer_unit (s' ! n) = Some c" "dim (s' ! n) = Some vd'"
      by (elim assign_Inr) simp
    note V = process_value_result [OF pv]
    have dimd: "vd' = d"
      using V by (cases "value_arg a") auto
    have given: "\<forall>e. error_arg a = Some e \<longrightarrow>
              err = Some (np_resize \<lparr>shape = shape e, flat = map (\<lambda>x. f * x) (flat e)\<rparr>
                            (shape val))"
      using pe process_error_given [of env s _ "ignore_dim_arg a" f val vform err eform]
      by auto
    have absent: "\<forall>e. error_arg a = None \<and> value_arg a = Sympy e \<and> \<not> is_number e \<longrightarrow>
              (\<exists>p pf. get_error env s e = Inr (p, pf)
                 \<and> err = Some (if ignore_dim_arg a
                             then \<lparr>shape = shape p, flat = map (\<lambda>x. f * x) (flat p)\<rparr>
                             else p))"
      using pe V process_error_absent [of env s "ignore_dim_arg a" f val vform err eform]
      by (cases "ignore_dim_arg a") auto
    from V dimd given absent fields show ?thesis
      by (cases "ignore_dim_arg a") auto
  qed
  have 4: "\<exists>s'. assign env a s = (Inr (Quantity_address s (name_arg a)), s')"
    if "unit_arg a = Some u" and "parse_unit env u = Inr (f, d, c)"
      and "value_arg a = Array v" and "error_arg a = None" for f d c v
    using that
    by (intro assign_parts [where vf = f and vd = d and vu = "Some c" and ef = f and ed = d
          and eu = "Some c" and val = "scale f v" and vform = None and vd' = d
          and err = None and eform = None])
       (simp_all add: parse_units_def lift_def process_value_def process_error_def)
  from 1 2 3 4 show ?thesis by blast
qed

text \<open>
  A value in kilometres with an error in seconds; the combined unit kilometre given
  together with these two units; and \<open>3 km\<close> with the error \<open>2 km\<close>, stored as 3000 and
  2000.
\<close>

theorem assign_unit_resolution_witness:
  "parse_unit demo_env ''km'' = Inr (1000, [1, 0], ''km'')
   \<and> parse_unit demo_env ''s'' = Inr (1, [0, 1], ''s'')
   \<and> assign demo_env
        ((assign_defaults (Array (scalar 3)))
           \<lparr>value_unit_arg := Some ''km'', error_unit_arg := Some ''s''\<rparr>) demo_store
       = (Inl (DimensionMismatch [1, 0] [0, 1]), demo_store)
   \<and> parse_units demo_env (Some ''km'') (Some ''km'') (Some ''s'')
       = Inr (1000, [1, 0], Some ''km'', 1000, [1, 0], Some ''km'')
   \<and> (\<exists>s'. assign demo_env
               ((assign_defaults (Array (scalar 3)))
                  \<lparr>error_arg := Some (scalar 2), unit_arg := Some ''km''\<rparr>) demo_store
             = (Inr 3, s')
          \<and> value (s' ! 3) = Some (scalar 3000) \<and> error (s' ! 3) = Some (scalar 2000)
          \<and> dim (s' ! 3) = Some [1, 0] \<and> prefer_unit (s' ! 3) = Some ''km'')"
proof -
  let ?a = "(assign_defaults (Array (scalar 3)))
              \<lparr>value_unit_arg := Some ''km'', error_unit_arg := Some ''s''\<rparr>
            :: (int, string) assign_args"
  let ?b = "?a\<lparr>unit_arg := Some ''km''\<rparr>"
  let ?c = "(assign_defaults (Array (scalar 3)))
              \<lparr>error_arg := Some (scalar 2), unit_arg := Some ''km''\<rparr>
            :: (int, string) assign_args"
  have km: "parse_unit demo_env ''km'' = Inr (1000, [1, 0], ''km'')"
    and sec: "parse_unit demo_env ''s'' = Inr (1, [0, 1], ''s'')"
    by (simp_all add: demo_env_def demo_parse_unit_def)
  have 1: "assign demo_env ?a demo_store = (Inl (DimensionMismatch [1, 0] [0, 1]), demo_store)"
    using assign_unit_resolution
      [where a = ?a and env = demo_env and vu = "''km''" and eu = "''s''" and s = demo_store
         and ?f1.0 = 1000 and ?d1.0 = "[1, 0]" and ?c1.0 = "''km''"
         and ?f2.0 = 1 and ?d2.0 = "[0, 1]" and ?c2.0 = "''s''"]
      km sec
    by (simp add: assign_defaults_def)
  have 2: "parse_units demo_env (Some ''km'') (Some ''km'') (Some ''s'')
       = Inr (1000, [1, 0], Some ''km'', 1000, [1, 0], Some ''km'')"
    using assign_unit_resolution [where a = ?b and env = demo_env and u = "''km''"] km
    by (simp add: assign_defaults_def)
  have "fst (assign demo_env ?c demo_store) = Inr 3"
    by (simp add: assign_unfold demo_unfold)
  then obtain s' where run: "assign demo_env ?c demo_store = (Inr 3, s')"
    by (cases "assign demo_env ?c demo_store") simp
  have uc: "unit_arg ?c = Some ''km''" and vc: "value_arg ?c = Array (scalar 3)"
    and ec: "error_arg ?c = Some (scalar 2)"
    by (simp_all add: assign_defaults_def)
  from assign_unit_resolution [where a = ?c and env = demo_env and u = "''km''"
      and s = demo_store]
  have "\<forall>f d c n s'.
        unit_arg ?c = Some ''km'' \<and> parse_unit demo_env ''km'' = Inr (f, d, c)
        \<and> assign demo_env ?c demo_store = (Inr n, s') \<longrightarrow>
          dim (s' ! n) = Some d \<and> prefer_unit (s' ! n) = Some c
        \<and> (\<forall>v. value_arg ?c = Array v \<longrightarrow>
              value (s' ! n) = Some \<lparr>shape = shape v, flat = map (\<lambda>x. f * x) (flat v)\<rparr>)
        \<and> (\<forall>e. error_arg ?c = Some e \<longrightarrow>
              (\<exists>v. value (s' ! n) = Some v
                 \<and> error (s' ! n)
                     = Some (np_resize \<lparr>shape = shape e, flat = map (\<lambda>x. f * x) (flat e)\<rparr>
                               (shape v))))"
    by blast
  with uc km run vc ec
  have "dim (s' ! 3) = Some [1, 0] \<and> prefer_unit (s' ! 3) = Some ''km''
      \<and> value (s' ! 3)
          = Some \<lparr>shape = shape (scalar (3::int)), flat = map (\<lambda>x. 1000 * x) (flat (scalar 3))\<rparr>
      \<and> (\<exists>v. value (s' ! 3) = Some v
            \<and> error (s' ! 3)
                = Some (np_resize \<lparr>shape = shape (scalar (2::int)),
                                   flat = map (\<lambda>x. 1000 * x) (flat (scalar 2))\<rparr> (shape v)))"
    by blast
  then have 3: "value (s' ! 3) = Some (scalar 3000) \<and> error (s' ! 3) = Some (scalar 2000)
          \<and> dim (s' ! 3) = Some [1, 0] \<and> prefer_unit (s' ! 3) = Some ''km''"
    by (auto simp: scalar_def np_resize_def)
  from km sec 1 2 run 3 show ?thesis by blast
qed



text \<open>
  Claim C2. With an explicit error array, once the units and the value are resolved: if the
  error is a scalar or its shape is a trailing part of the shape of the value, \<open>assign\<close>
  succeeds and the stored error has the shape of the value, its elements being the scaled
  error repeated once for every index of the remaining leading axes; with any other shape
  \<open>assign\<close> fails with the shape mismatch of the two shapes and creates nothing.
\<close>

theorem assign_error_broadcast:
  assumes "error_arg a = Some e" and "wf_ndarray e"
    and "parse_units env (unit_arg a) (value_unit_arg a) (error_unit_arg a)
           = Inr (vf, vd, vu, ef, ed, eu)"
    and "process_value env s (value_arg a) (ignore_dim_arg a) vf vd vu = Inr (v, vform, vd')"
  shows "(shape e = [] \<or> suffix (shape e) (shape v) \<longrightarrow>
            (\<exists>s' arr. assign env a s = (Inr (Quantity_address s (name_arg a)), s')
               \<and> error (s' ! Quantity_address s (name_arg a)) = Some arr
               \<and> shape arr = shape v
               \<and> flat arr = concat (replicate
                    (prod_list (take (length (shape v) - length (shape e)) (shape v)))
                    (map (\<lambda>x. ef * x) (flat e)))))
       \<and> (\<not> (shape e = [] \<or> suffix (shape e) (shape v)) \<longrightarrow>
            assign env a s = (Inl (ShapeMismatch (shape v) (shape e)), s))"
proof (cases "suffix (shape e) (shape v)")
  case True
  then obtain lead where lead: "shape v = lead @ shape e" by (auto simp: suffix_def)
  have cond: "shape e = [] \<or> drop (length (shape v) - length (shape e)) (shape v) = shape e"
    using True by (simp add: trailing_shape_iff)
  have sc: "scale ef e = \<lparr>shape = shape e, flat = map (\<lambda>x. ef * x) (flat e)\<rparr>"
    by (simp add: scale_def)
  have "np_resize (scale ef e) (shape v)
          = \<lparr>shape = shape v,
             flat = concat (replicate (prod_list lead) (map (\<lambda>x. ef * x) (flat e)))\<rparr>"
    using assms(2) np_resize_trailing [of "map (\<lambda>x. ef * x) (flat e)" "shape e" lead]
    by (simp add: sc lead wf_ndarray_def)
  moreover have "take (length (shape v) - length (shape e)) (shape v) = lead"
    by (simp add: lead)
  ultimately show ?thesis
    using assms cond True
    by (auto simp: assign_def process_error_def Let_def sc Quantity_def put_object_at)
next
  case False
  then have "\<not> (shape e = [] \<or> drop (length (shape v) - length (shape e)) (shape v) = shape e)"
    by (simp add: trailing_shape_iff)
  moreover from False have "shape e \<noteq> []" by auto
  ultimately show ?thesis
    using assms False
    by (auto simp: assign_def process_error_def Let_def scale_def)
qed

text \<open>
  The two cases of the specification: a value of shape \<open>(3, 4)\<close> with an error of shape
  \<open>(4,)\<close>, whose row is then stored three times, and with an error of shape \<open>(3,)\<close>.
\<close>

theorem assign_error_broadcast_witness:
  "(\<exists>q. assign demo_env
           ((assign_defaults
               (Array \<lparr>shape = [3, 4], flat = [1, 2, 3, 4, 5, 6, 7, 8, 9, 10, 11, 12]\<rparr>))
              \<lparr>error_arg := Some \<lparr>shape = [4], flat = [1, 2, 3, 4]\<rparr>\<rparr>) []
          = (Inr 0, [q])
        \<and> error q = Some \<lparr>shape = [3, 4], flat = [1, 2, 3, 4, 1, 2, 3, 4, 1, 2, 3, 4]\<rparr>)
   \<and> assign demo_env
        ((assign_defaults
            (Array \<lparr>shape = [3, 4], flat = [1, 2, 3, 4, 5, 6, 7, 8, 9, 10, 11, 12]\<rparr>))
           \<lparr>error_arg := Some \<lparr>shape = [3], flat = [1, 2, 3]\<rparr>\<rparr>) []
       = (Inl (ShapeMismatch [3, 4] [3]), [])"
proof -
  let ?v = "\<lparr>shape = [3, 4], flat = [1, 2, 3, 4, 5, 6, 7, 8, 9, 10, 11, 12]\<rparr> :: int ndarray"
  let ?e1 = "\<lparr>shape = [4], flat = [1, 2, 3, 4]\<rparr> :: int ndarray"
  let ?e2 = "\<lparr>shape = [3], flat = [1, 2, 3]\<rparr> :: int ndarray"
  let ?a1 = "(assign_defaults (Array ?v))\<lparr>error_arg := Some ?e1\<rparr> :: (int, string) assign_args"
  let ?a2 = "(assign_defaults (Array ?v))\<lparr>error_arg := Some ?e2\<rparr> :: (int, string) assign_args"
  have pu: "parse_units demo_env None None None = Inr (1, [0, 0], None, 1, [0, 0], None)"
    by (simp add: parse_units_def demo_env_def)
  have pv: "process_value demo_env [] (Array ?v) False 1 [0, 0] None = Inr (?v, None, [0, 0])"
    by (simp add: process_value_def scale_def)
  have sfx: "suffix [4::nat] [3, 4]"
    by (simp add: suffix_def)
  have nsfx: "\<not> ([3::nat] = [] \<or> suffix [3::nat] [3, 4])"
    by (auto simp: suffix_def Cons_eq_append_conv)
  from assign_error_broadcast [where a = ?a1 and e = ?e1 and env = demo_env and s = "[]"
      and v = ?v and vf = 1 and vd = "[0, 0]" and vu = None and ef = 1 and ed = "[0, 0]"
      and eu = None and vform = None and vd' = "[0, 0]"] pu pv sfx
  obtain s' arr where 1: "assign demo_env ?a1 [] = (Inr 0, s')"
    and 2: "error (s' ! 0) = Some arr" and 3: "shape arr = [3, 4]"
    and 4: "flat arr = [1, 2, 3, 4, 1, 2, 3, 4, 1, 2, 3, 4]"
    by (auto simp: assign_defaults_def wf_ndarray_def numeral_3_eq_3 Quantity_address_def)
  from 1 obtain q where q: "s' = [q]"
    by (auto simp: assign_def Let_def put_object_def split: sum.splits prod.splits)
  from 2 3 4 q have "error q = Some \<lparr>shape = [3, 4], flat = [1, 2, 3, 4, 1, 2, 3, 4, 1, 2, 3, 4]\<rparr>"
    by (cases arr) simp
  moreover
  from assign_error_broadcast [where a = ?a2 and e = ?e2 and env = demo_env and s = "[]"
      and v = ?v and vf = 1 and vd = "[0, 0]" and vu = None and ef = 1 and ed = "[0, 0]"
      and eu = None and vform = None and vd' = "[0, 0]"] pu pv nsfx
  have "assign demo_env ?a2 [] = (Inl (ShapeMismatch [3, 4] [3]), [])"
    by (simp add: assign_defaults_def wf_ndarray_def)
  ultimately show ?thesis using 1 q by blast
qed




text \<open>
  Claim C1 as it is stated fails in its last clause: "if no unit was given, the resulting
  Quantity's dim is the computed dimension". With dimension checking disabled line 70 takes
  the branch that never computes a dimension, and line 116 stores \<open>Dimension()\<close>. Here the
  formula is the quantity \<open>x\<close>, a length; no unit is given and \<open>ignore_dim\<close> is set: the
  new Quantity is dimensionless, while the dimension computed from the formula is that of a
  length.
\<close>

theorem assign_formula_value_counterexample:
  "is_number (Sym 0) = False
   \<and> get_dimension demo_env demo_store (Sym 0) = Inr [1, 0]
   \<and> fst (assign demo_env ((assign_defaults (Sympy (Sym 0)))\<lparr>ignore_dim_arg := True\<rparr>)
           demo_store) = Inr 3
   \<and> dim (snd (assign demo_env ((assign_defaults (Sympy (Sym 0)))\<lparr>ignore_dim_arg := True\<rparr>)
                 demo_store) ! 3) = Some [0, 0]
   \<and> Some [0, 0] \<noteq> Some [1, 0 :: int]"
  by (simp add: assign_unfold demo_unfold)

text \<open>
  Claim C1, amended. For a value that is a symbolic expression and no number, with
  \<open>(vf, vd, vu)\<close> the factor, dimension and canonical form resolved for the value unit
  (\<open>vu\<close> absent, \<open>vd\<close> dimensionless and \<open>vf = 1\<close> when neither a unit nor a value unit
  was given): the value is computed by evaluating the formula, which is kept as value
  formula. With dimension checking enabled the dimension is computed from the formula; if a
  value unit was given and the computed dimension differs from \<open>vd\<close>, \<open>assign\<close> fails
  with the dimension mismatch of the two and creates nothing; otherwise the computed
  dimension is the dimension of the Quantity. With dimension checking disabled the computed
  value is scaled by \<open>vf\<close> and the dimension of the Quantity is \<open>vd\<close>: the dimension of
  the declared unit, and dimensionless when no value unit was given.
\<close>

theorem assign_formula_value:
  assumes "value_arg a = Sympy e" and "\<not> is_number e"
    and "parse_units env (unit_arg a) (value_unit_arg a) (error_unit_arg a)
           = Inr (vf, vd, vu, ef, ed, eu)"
  shows "(\<forall>n s'. assign env a s = (Inr n, s') \<longrightarrow>
            (\<exists>v. get_value env s e = Inr v
               \<and> value (s' ! n) = Some (if ignore_dim_arg a then scale vf v else v))
          \<and> value_formula (s' ! n) = Some (Expression e)
          \<and> (ignore_dim_arg a \<longrightarrow> dim (s' ! n) = Some vd)
          \<and> (\<not> ignore_dim_arg a \<longrightarrow>
               (\<exists>cd. get_dimension env s e = Inr cd \<and> dim (s' ! n) = Some cd
                  \<and> (vu \<noteq> None \<longrightarrow> cd = vd))))
       \<and> (\<forall>v cd. \<not> ignore_dim_arg a \<and> vu \<noteq> None \<and> get_value env s e = Inr v
             \<and> get_dimension env s e = Inr cd \<and> cd \<noteq> vd \<longrightarrow>
            assign env a s = (Inl (DimensionMismatch vd cd), s))
       \<and> (vu = None \<longrightarrow> vd = dimensionless env \<and> vf = 1)"
proof -
  have 3: "vu = None \<longrightarrow> vd = dimensionless env \<and> vf = 1"
    using assms(3)
    by (auto simp: parse_units_def lift_def split: sum.splits prod.splits option.splits if_splits)
  have 2: "\<forall>v cd. \<not> ignore_dim_arg a \<and> vu \<noteq> None \<and> get_value env s e = Inr v
             \<and> get_dimension env s e = Inr cd \<and> cd \<noteq> vd \<longrightarrow>
            assign env a s = (Inl (DimensionMismatch vd cd), s)"
    using assms by (auto simp: assign_def process_value_def lift_def)
  have 1: "\<forall>n s'. assign env a s = (Inr n, s') \<longrightarrow>
            (\<exists>v. get_value env s e = Inr v
               \<and> value (s' ! n) = Some (if ignore_dim_arg a then scale vf v else v))
          \<and> value_formula (s' ! n) = Some (Expression e)
          \<and> (ignore_dim_arg a \<longrightarrow> dim (s' ! n) = Some vd)
          \<and> (\<not> ignore_dim_arg a \<longrightarrow>
               (\<exists>cd. get_dimension env s e = Inr cd \<and> dim (s' ! n) = Some cd
                  \<and> (vu \<noteq> None \<longrightarrow> cd = vd)))"
    using assms
    by (auto simp: assign_def process_value_def lift_def Let_def Quantity_def put_object_at
           split: sum.splits prod.splits if_splits)
  from 1 2 3 show ?thesis by blast
qed

text \<open>
  The area \<open>x * x\<close> declared in kilometres fails with the mismatch of length and area; the
  formula \<open>x\<close> without a unit gets the computed dimension, a length.
\<close>

theorem assign_formula_value_witness:
  "\<not> is_number (Mul (Sym 0) (Sym 0)) \<and> \<not> is_number (Sym 0)
   \<and> parse_units demo_env (Some ''km'') None None
       = Inr (1000, [1, 0], Some ''km'', 1000, [1, 0], Some ''km'')
   \<and> assign demo_env
        ((assign_defaults (Sympy (Mul (Sym 0) (Sym 0))))\<lparr>unit_arg := Some ''km''\<rparr>) demo_store
       = (Inl (DimensionMismatch [1, 0] [2, 0]), demo_store)
   \<and> parse_units demo_env None None None = Inr (1, [0, 0], None, 1, [0, 0], None)
   \<and> (\<exists>q. assign demo_env (assign_defaults (Sympy (Sym 0))) demo_store
             = (Inr 3, demo_store @ [q])
          \<and> dim q = Some [1, 0] \<and> value q = Some (scalar 2))"
proof -
  let ?a = "(assign_defaults (Sympy (Mul (Sym 0) (Sym 0))))\<lparr>unit_arg := Some ''km''\<rparr>
            :: (int, string) assign_args"
  let ?b = "assign_defaults (Sympy (Sym 0)) :: (int, string) assign_args"
  have n1: "\<not> is_number (Mul (Sym 0) (Sym 0))" and n2: "\<not> is_number (Sym 0)"
    by (simp_all add: is_number_def free_symbols_def)
  have pa: "parse_units demo_env (unit_arg ?a) (value_unit_arg ?a) (error_unit_arg ?a)
       = Inr (1000, [1, 0], Some ''km'', 1000, [1, 0], Some ''km'')"
    by (simp add: parse_units_def lift_def demo_env_def demo_parse_unit_def assign_defaults_def)
  have pb: "parse_units demo_env (unit_arg ?b) (value_unit_arg ?b) (error_unit_arg ?b)
       = Inr (1, [0, 0], None, 1, [0, 0], None)"
    by (simp add: parse_units_def demo_env_def assign_defaults_def)
  have gv: "get_value demo_env demo_store (Mul (Sym 0) (Sym 0)) = Inr (scalar 4)"
    by (simp add: demo_env_def demo_store_def demo_quantity_def scalar_def)
  have gd: "get_dimension demo_env demo_store (Mul (Sym 0) (Sym 0)) = Inr [2, 0]"
    by (simp add: demo_env_def demo_store_def demo_quantity_def)
  have gvb: "get_value demo_env demo_store (Sym 0) = Inr (scalar 2)"
    by (simp add: demo_env_def demo_store_def demo_quantity_def scalar_def)
  have gdb: "get_dimension demo_env demo_store (Sym 0) = Inr [1, 0]"
    by (simp add: demo_env_def demo_store_def demo_quantity_def)
  have 1: "assign demo_env ?a demo_store = (Inl (DimensionMismatch [1, 0] [2, 0]), demo_store)"
    using assign_formula_value [OF _ n1 pa, of demo_store] gv gd
    by (simp add: assign_defaults_def)
  obtain q where ev: "assign demo_env ?b demo_store = (Inr 3, demo_store @ [q])"
    by (simp add: assign_unfold demo_unfold)
  have at: "(demo_store @ [q]) ! 3 = q"
    by (simp add: demo_store_def)
  from assign_formula_value [OF _ n2 pb, of demo_store] ev gvb gdb
  have "dim q = Some [1, 0] \<and> value q = Some (scalar 2)"
    by (simp add: at assign_defaults_def)
  with n1 n2 pa pb 1 ev show ?thesis by (auto simp: assign_defaults_def)
qed

section \<open>Facts about the parts of fit\<close>

lemma save_results_frame:
  "save_results ps i vals errs s = (r, s') \<Longrightarrow>
     length s' = length s
   \<and> (\<forall>a<length s. dim (s' ! a) = dim (s ! a) \<and> prefer_unit (s' ! a) = prefer_unit (s ! a)
         \<and> name (s' ! a) = name (s ! a))"
proof (induction ps i vals errs s arbitrary: r s' rule: save_results.induct)
  case (1 i vals errs s)
  then show ?case by simp
next
  case (2 p ps i vals errs s)
  show ?case
  proof (cases "i < length vals \<and> p < length s \<and> i < length errs")
    case False
    with 2(2) show ?thesis
      by (auto simp: Let_def nth_list_update split: if_splits)
  next
    case True
    define s4 where "s4 = s[p := (s ! p)\<lparr>value := Some (vals ! i), value_formula := Some (Text ''fit''),
        error := Some (errs ! i), error_formula := Some (Text ''fit'')\<rparr>]"
    from True 2(2) have rec: "save_results ps (Suc i) vals errs s4 = (r, s')"
      by (simp add: Let_def s4_def)
    have "length s' = length s4
      \<and> (\<forall>a<length s4. dim (s' ! a) = dim (s4 ! a) \<and> prefer_unit (s' ! a) = prefer_unit (s4 ! a)
         \<and> name (s' ! a) = name (s4 ! a))"
      using 2(1) [OF _ _ refl refl _ refl refl, of r s'] True rec
      by (simp add: s4_def)
    then show ?thesis
      using True by (auto simp: s4_def nth_list_update)
  qed
qed

text \<open>Saving the results keeps the formulas of all quantities in the form the program uses.\<close>

lemma save_results_formulas:
  "save_results ps i vals errs s = (r, s') \<Longrightarrow> \<forall>q\<in>set s. formulas_as_stored q \<Longrightarrow>
     \<forall>q\<in>set s'. formulas_as_stored q"
proof (induction ps i vals errs s arbitrary: r s' rule: save_results.induct)
  case (1 i vals errs s)
  then show ?case by simp
next
  case (2 p ps i vals errs s)
  have upd: "\<forall>q\<in>set (s[p := x]). formulas_as_stored q"
    if "formulas_as_stored x" for x
    using 2(3) that by (auto dest!: set_update_subset_insert [THEN subsetD])
  show ?case
  proof (cases "i < length vals \<and> p < length s")
    case False
    with 2(2,3) show ?thesis by (auto split: if_splits)
  next
    case True
    then have sp: "formulas_as_stored (s ! p)" using 2(3) by simp
    define x2 where "x2 = (s ! p)\<lparr>value := Some (vals ! i), value_formula := Some (Text ''fit'')\<rparr>"
    define x4 where "x4 = x2\<lparr>error := Some (errs ! i), error_formula := Some (Text ''fit'')\<rparr>"
    have f2: "formulas_as_stored x2" and f4: "formulas_as_stored x4"
      using sp by (simp_all add: x2_def x4_def formulas_as_stored_def fit_text_only_def)
    show ?thesis
    proof (cases "i < length errs")
      case False
      with True 2(2) have "s' = s[p := x2]"
        by (simp add: Let_def x2_def)
      with upd [OF f2] show ?thesis by simp
    next
      case e: True
      from True e 2(2) have rec: "save_results ps (Suc i) vals errs (s[p := x4]) = (r, s')"
        by (simp add: Let_def x2_def x4_def)
      from 2(1) [OF _ _ refl refl _ refl refl, of r s'] True e rec upd [OF f4]
      show ?thesis by (simp add: x2_def x4_def)
    qed
  qed
qed

text \<open>A successful saving of the results leaves the string \<open>fit\<close> in both formulas of every parameter.\<close>

lemma save_results_keeps_fit:
  "save_results ps i vals errs s = (r, s') \<Longrightarrow> a < length s \<Longrightarrow>
     value_formula (s ! a) = Some (Text ''fit'') \<and> error_formula (s ! a) = Some (Text ''fit'') \<Longrightarrow>
     value_formula (s' ! a) = Some (Text ''fit'') \<and> error_formula (s' ! a) = Some (Text ''fit'')"
proof (induction ps i vals errs s arbitrary: r s' rule: save_results.induct)
  case (1 i vals errs s)
  then show ?case by simp
next
  case (2 p ps i vals errs s)
  show ?case
  proof (cases "i < length vals \<and> p < length s \<and> i < length errs")
    case False
    with 2(2,3,4) show ?thesis
      by (auto simp: Let_def nth_list_update split: if_splits)
  next
    case True
    define s4 where "s4 = s[p := (s ! p)\<lparr>value := Some (vals ! i), value_formula := Some (Text ''fit''),
        error := Some (errs ! i), error_formula := Some (Text ''fit'')\<rparr>]"
    from True 2(2) have rec: "save_results ps (Suc i) vals errs s4 = (r, s')"
      by (simp add: Let_def s4_def)
    have "value_formula (s4 ! a) = Some (Text ''fit'') \<and> error_formula (s4 ! a) = Some (Text ''fit'')"
      using 2(3,4) True by (auto simp: s4_def nth_list_update)
    with 2(1) [OF _ _ refl refl _ refl refl, of r s'] True rec 2(3)
    show ?thesis by (simp add: s4_def)
  qed
qed

lemma save_results_sets_fit:
  "save_results ps i vals errs s = (Inr (), s') \<Longrightarrow> p \<in> set ps \<Longrightarrow>
     value_formula (s' ! p) = Some (Text ''fit'') \<and> error_formula (s' ! p) = Some (Text ''fit'')"
proof (induction ps i vals errs s arbitrary: s' rule: save_results.induct)
  case (1 i vals errs s)
  then show ?case by simp
next
  case (2 p0 ps i vals errs s)
  from 2(2) have ok: "i < length vals \<and> p0 < length s \<and> i < length errs"
    by (auto simp: Let_def split: if_splits)
  define s4 where "s4 = s[p0 := (s ! p0)\<lparr>value := Some (vals ! i), value_formula := Some (Text ''fit''),
        error := Some (errs ! i), error_formula := Some (Text ''fit'')\<rparr>]"
  from ok 2(2) have rec: "save_results ps (Suc i) vals errs s4 = (Inr (), s')"
    by (simp add: Let_def s4_def)
  show ?case
  proof (cases "p \<in> set ps")
    case True
    with 2(1) [OF _ _ refl refl _ refl refl, of s'] ok rec show ?thesis
      by (simp add: s4_def)
  next
    case False
    with 2(3) have "p = p0" by simp
    then have "value_formula (s4 ! p) = Some (Text ''fit'') \<and> error_formula (s4 ! p) = Some (Text ''fit'')"
      and "p < length s4"
      using ok by (simp_all add: s4_def)
    with save_results_keeps_fit [OF rec] show ?thesis by blast
  qed
qed

lemma save_dimensions_frame:
  "save_dimensions kd syms s = (r, s') \<Longrightarrow>
     length s' = length s
   \<and> (\<forall>a<length s. name (s' ! a) = name (s ! a) \<and> longname (s' ! a) = longname (s ! a)
         \<and> value (s' ! a) = value (s ! a) \<and> value_formula (s' ! a) = value_formula (s ! a)
         \<and> error (s' ! a) = error (s ! a) \<and> error_formula (s' ! a) = error_formula (s ! a))"
proof (induction kd syms s arbitrary: r s' rule: save_dimensions.induct)
  case (1 kd s)
  then show ?case by simp
next
  case (2 kd q qs s)
  show ?case
  proof (cases "lookup s q")
    case (Inl e)
    with 2(3) show ?thesis by auto
  next
    case (Inr x)
    then have x: "x = s ! q" and q: "q < length s"
      by (auto simp: lookup_def split: if_splits)
    show ?thesis
    proof (cases "kd (name x)")
      case None
      with 2(3) Inr show ?thesis by auto
    next
      case (Some d)
      show ?thesis
      proof (cases "dim x = Some d")
        case True
        with 2(2) [OF Inr Some] 2(3) Inr Some show ?thesis by simp
      next
        case False
        let ?s1 = "s[q := x\<lparr>dim := Some d, prefer_unit := None\<rparr>]"
        from False 2(3) Inr Some have rec: "save_dimensions kd qs ?s1 = (r, s')" by simp
        from 2(1) [OF Inr Some False rec] q x show ?thesis
          by (auto simp: nth_list_update)
      qed
    qed
  qed
qed

lemma known_dimensions_total:
  "\<forall>q\<in>set syms. q < length s \<Longrightarrow> \<exists>known. known_dimensions s params syms m = Inr known"
  by (induction syms arbitrary: m) (auto simp: lookup_def)

lemma apply_solution_length: "length (apply_solution solved syms s) = length s"
  by (simp add: apply_solution_def)

lemma apply_solution_nth:
  "a < length s \<Longrightarrow> apply_solution solved syms s ! a =
     (if a \<in> set syms \<and> \<not> dim (s ! a) = solved (name (s ! a))
      then (s ! a)\<lparr>dim := solved (name (s ! a)), prefer_unit := None\<rparr>
      else s ! a)"
  by (simp add: apply_solution_def)

lemma save_dimensions_solution:
  assumes "distinct syms" and "\<forall>q\<in>set syms. q < length s"
    and "\<forall>q\<in>set syms. solved (name (s ! q)) \<noteq> None"
  shows "save_dimensions solved syms s = (Inr (), apply_solution solved syms s)"
  using assms
proof (induction syms arbitrary: s)
  case Nil
  have "apply_solution solved [] s = s"
    by (rule nth_equalityI) (simp_all add: apply_solution_length apply_solution_nth)
  then show ?case by simp
next
  case (Cons q qs)
  from Cons.prems have q: "q < length s" and nq: "q \<notin> set qs" and dq: "distinct qs"
    by simp_all
  from Cons.prems obtain d where d: "solved (name (s ! q)) = Some d" by auto
  show ?case
  proof (cases "dim (s ! q) = Some d")
    case True
    have "apply_solution solved (q # qs) s = apply_solution solved qs s"
      by (rule nth_equalityI) (auto simp: apply_solution_length apply_solution_nth True d)
    moreover have "save_dimensions solved qs s = (Inr (), apply_solution solved qs s)"
      using Cons.prems dq by (intro Cons.IH) simp_all
    ultimately show ?thesis using q d True by (simp add: lookup_def)
  next
    case False
    let ?s1 = "s[q := (s ! q)\<lparr>dim := Some d, prefer_unit := None\<rparr>]"
    have other: "?s1 ! a = s ! a" if "a \<in> set qs" for a
      using that nq by (metis nth_list_update_neq)
    have ih: "save_dimensions solved qs ?s1 = (Inr (), apply_solution solved qs ?s1)"
      using Cons.prems dq other by (intro Cons.IH) simp_all
    have "apply_solution solved qs ?s1 = apply_solution solved (q # qs) s"
    proof (rule nth_equalityI)
      show "length (apply_solution solved qs ?s1) = length (apply_solution solved (q # qs) s)"
        by (simp add: apply_solution_length)
    next
      fix a assume "a < length (apply_solution solved qs ?s1)"
      then have a: "a < length s" by (simp add: apply_solution_length)
      show "apply_solution solved qs ?s1 ! a = apply_solution solved (q # qs) s ! a"
      proof (cases "a = q")
        case True
        with a nq False d show ?thesis by (simp add: apply_solution_nth)
      next
        case False
        with a show ?thesis by (simp add: apply_solution_nth)
      qed
    qed
    with ih q d False show ?thesis by (simp add: lookup_def)
  qed
qed

lemma check_dimension_frame:
  assumes "check_dimension env func ydata params w = (r, w')"
  shows "length (quantities w') = length (quantities w)
     \<and> (\<forall>a<length (quantities w).
           name (quantities w' ! a) = name (quantities w ! a)
         \<and> value (quantities w' ! a) = value (quantities w ! a)
         \<and> value_formula (quantities w' ! a) = value_formula (quantities w ! a)
         \<and> error (quantities w' ! a) = error (quantities w ! a)
         \<and> error_formula (quantities w' ! a) = error_formula (quantities w ! a))"
  using assms
  by (auto simp: check_dimension_def Let_def
           split: sum.splits prod.splits if_splits dest!: save_dimensions_frame)

lemma check_dimension_formulas:
  assumes "check_dimension env func ydata params w = (r, w')"
    and "\<forall>q\<in>set (quantities w). formulas_as_stored q"
  shows "\<forall>q\<in>set (quantities w'). formulas_as_stored q"
proof
  fix q assume "q \<in> set (quantities w')"
  then obtain a where a: "a < length (quantities w')" and q: "q = quantities w' ! a"
    by (auto simp: in_set_conv_nth)
  from check_dimension_frame [OF assms(1)] a
  have "a < length (quantities w)"
    and "value_formula (quantities w' ! a) = value_formula (quantities w ! a)"
    and "error_formula (quantities w' ! a) = error_formula (quantities w ! a)"
    by simp_all
  with assms(2) q show "formulas_as_stored q"
    by (simp add: formulas_as_stored_def)
qed

section \<open>The claims about fit\<close>

lemma assign_result_formulas:
  assumes "assign env a s = (r, s')"
  shows "(s' = s \<and> (\<exists>e. r = Inl e))
     \<or> (\<exists>n q vf ef. s' = put_object s n q \<and> r = Inr n \<and> s' ! n = q
           \<and> value_formula q = map_option Expression vf
           \<and> error_formula q = map_option Expression ef)"
proof (cases r)
  case (Inl e)
  with assms show ?thesis by (simp add: assign_Inl)
next
  case (Inr n)
  with assms have "assign env a s = (Inr n, s')" by simp
  then obtain vform eform where "s' = put_object s n (s' ! n)"
    and "value_formula (s' ! n) = map_option Expression vform"
    and "error_formula (s' ! n) = map_option Expression eform"
    by (rule assign_Inr)
  with Inr show ?thesis by blast
qed

text \<open>
  Claim C6 as it is stated fails: line 274 of \<open>fit\<close> stores the string \<open>fit\<close> in the value
  formula of every parameter, as line 276 does in the error formula. The fit of \<open>k * x\<close> to
  \<open>q\<close> succeeds, and afterwards the value formula of the parameter \<open>k\<close> is that string.
\<close>

theorem fit_value_formula_counterexample:
  "formulas_as_specified (demo_store ! 2)
   \<and> fst (fit demo_env (Mul (Sym 2) (Sym 0)) [0] 1 [2] demo_options False demo_world) = Inr ()
   \<and> value_formula
        (quantities (snd (fit demo_env (Mul (Sym 2) (Sym 0)) [0] 1 [2] demo_options False
                            demo_world)) ! 2) = Some (Text ''fit'')
   \<and> \<not> formulas_as_specified
        (quantities (snd (fit demo_env (Mul (Sym 2) (Sym 0)) [0] 1 [2] demo_options False
                            demo_world)) ! 2)"
  by (simp add: fit_def check_dimension_def try_get_dimension_def lookup_def lift_def
        demo_world_def demo_env_def demo_store_def demo_quantity_def demo_dim_solve_def
        Quantity_def scalar_def free_symbols_def formulas_as_specified_def no_text_def
        fit_text_only_def Let_def)

text \<open>
  Claim C6, amended. In every Quantity each of the two formulas is a symbolic expression,
  the string \<open>fit\<close>, or absent, and \<open>assign\<close> and \<open>fit\<close> keep it so. \<open>assign\<close> stores no
  string in either formula of the Quantity it creates. A successful \<open>fit\<close> stores the
  string \<open>fit\<close> in the value formula and in the error formula of every parameter.
\<close>

theorem formulas_invariant:
  assumes "\<forall>q\<in>set (quantities w). formulas_as_stored q"
  shows "(assign env a (quantities w) = (r, s') \<longrightarrow>
            (\<forall>q\<in>set s'. formulas_as_stored q)
          \<and> (\<forall>n. r = Inr n \<longrightarrow>
                no_text (value_formula (s' ! n)) \<and> no_text (error_formula (s' ! n))))
       \<and> (fit env func xdata ydata params opts ignore_dim w = (r', w') \<longrightarrow>
            (\<forall>q\<in>set (quantities w'). formulas_as_stored q)
          \<and> (r' = Inr () \<longrightarrow>
                (\<forall>p\<in>set params.
                    value_formula (quantities w' ! p) = Some (Text ''fit'')
                  \<and> error_formula (quantities w' ! p) = Some (Text ''fit''))))"
proof (intro conjI impI)
  assume run: "assign env a (quantities w) = (r, s')"
  from assign_result_formulas [OF run]
  consider (failed) "s' = quantities w" "\<exists>e. r = Inl e"
    | (created) n q vf ef where "s' = put_object (quantities w) n q" "r = Inr n"
        "s' ! n = q" "value_formula q = map_option Expression vf"
        "error_formula q = map_option Expression ef"
    by blast
  note outcome = this
  show "\<forall>q\<in>set s'. formulas_as_stored q"
  proof (cases rule: outcome)
    case failed
    with assms show ?thesis by simp
  next
    case (created n q vf ef)
    then have "formulas_as_stored q"
      by (cases vf; cases ef) (simp_all add: formulas_as_stored_def fit_text_only_def)
    with assms created(1) set_put_object [of "quantities w" n q] show ?thesis by auto
  qed
  show "\<forall>n. r = Inr n \<longrightarrow> no_text (value_formula (s' ! n)) \<and> no_text (error_formula (s' ! n))"
  proof (cases rule: outcome)
    case failed
    then show ?thesis by auto
  next
    case (created n q vf ef)
    then show ?thesis
      by (cases vf; cases ef) (simp_all add: no_text_def)
  qed
next
  assume run: "fit env func xdata ydata params opts ignore_dim w = (r', w')"
  obtain r0 w0 where chk:
    "(if \<not> ignore_dim then check_dimension env func ydata params w else (Inr (), w)) = (r0, w0)"
    by (cases "if \<not> ignore_dim then check_dimension env func ydata params w else (Inr (), w)")
  have inv0: "\<forall>q\<in>set (quantities w0). formulas_as_stored q"
    using chk assms check_dimension_formulas [of env func ydata params w r0 w0]
    by (auto split: if_splits)
  show "\<forall>q\<in>set (quantities w'). formulas_as_stored q"
    using run chk inv0
    by (auto simp: fit_def Let_def split: sum.splits prod.splits
             dest: save_results_formulas)
  show "\<forall>p\<in>set params.
            value_formula (quantities w' ! p) = Some (Text ''fit'')
          \<and> error_formula (quantities w' ! p) = Some (Text ''fit'')"
    if "r' = Inr ()"
    using run chk that
    by (auto simp: fit_def Let_def split: sum.splits prod.splits
             dest: save_results_sets_fit)
qed

text \<open>The fit of \<open>k * x\<close> to \<open>q\<close>, and the assignment of the formula \<open>x\<close>.\<close>

theorem formulas_invariant_witness:
  "list_all formulas_as_stored (quantities demo_world)
   \<and> fst (fit demo_env (Mul (Sym 2) (Sym 0)) [0] 1 [2] demo_options False demo_world) = Inr ()
   \<and> error_formula
        (quantities (snd (fit demo_env (Mul (Sym 2) (Sym 0)) [0] 1 [2] demo_options False
                            demo_world)) ! 2) = Some (Text ''fit'')
   \<and> no_text (value_formula
        (snd (assign demo_env (assign_defaults (Sympy (Sym 0))) (quantities demo_world)) ! 3))"
proof -
  let ?fit = "fit demo_env (Mul (Sym 2) (Sym 0)) [0] 1 [2] demo_options False demo_world"
  let ?asg = "assign demo_env (assign_defaults (Sympy (Sym 0))) (quantities demo_world)"
  have inv: "\<forall>q\<in>set (quantities demo_world). formulas_as_stored q"
    by (simp add: demo_world_def demo_store_def demo_quantity_def Quantity_def
          formulas_as_stored_def fit_text_only_def)
  have ok: "fst ?fit = Inr ()"
    by (simp add: fit_def check_dimension_def try_get_dimension_def lookup_def lift_def
        demo_world_def demo_env_def demo_store_def demo_quantity_def demo_dim_solve_def
        Quantity_def scalar_def free_symbols_def Let_def)
  have asg: "fst ?asg = Inr 3"
    by (simp add: assign_unfold demo_unfold demo_world_def)
  obtain w' where f: "?fit = (Inr (), w')" using ok by (cases ?fit) simp
  obtain s' where g: "?asg = (Inr 3, s')" using asg by (cases ?asg) simp
  from formulas_invariant [OF inv, of demo_env "assign_defaults (Sympy (Sym 0))"
      "Inr 3" s' "Mul (Sym 2) (Sym 0)" "[0]" 1 "[2]" demo_options False "Inr ()" w'] f g
  have "error_formula (quantities w' ! 2) = Some (Text ''fit'')
      \<and> no_text (value_formula (s' ! 3))"
    by simp
  with f g inv show ?thesis by (simp add: list_all_iff)
qed

section \<open>The dimension check of fit\<close>

lemma distinct_free_symbols: "distinct (free_symbols e)"
  by (simp add: free_symbols_def)

text \<open>The dimension check when the solver fails, and when its solution covers every symbol.\<close>

lemma check_dimension_unsolved:
  assumes "try_get_dimension env (quantities w) func = Inr func_dim"
    and "lookup (quantities w) ydata = Inr y"
    and "func_dim \<noteq> dim y"
    and "known_dimensions (quantities w) params (free_symbols func) Map.empty = Inr known"
    and "dim_solve env (quantities w) func (dim y) known = Inl x"
  shows "check_dimension env func ydata params w
           = (Inl (Raised x), w\<lparr>calls := calls w @ [GetDimension, DimSolve]\<rparr>)"
  using assms by (simp add: check_dimension_def Let_def lift_def)

lemma check_dimension_solved:
  assumes "try_get_dimension env (quantities w) func = Inr func_dim"
    and "lookup (quantities w) ydata = Inr y"
    and "func_dim \<noteq> dim y"
    and "known_dimensions (quantities w) params (free_symbols func) Map.empty = Inr known"
    and "dim_solve env (quantities w) func (dim y) known = Inr solved"
    and "\<forall>q\<in>set (free_symbols func). q < length (quantities w)"
    and "\<forall>q\<in>set (free_symbols func). solved (name (quantities w ! q)) \<noteq> None"
  shows "check_dimension env func ydata params w =
    (let s3 = apply_solution solved (free_symbols func) (quantities w);
         w3 = w\<lparr>quantities := s3, calls := calls w @ [GetDimension, DimSolve, GetDimension]\<rparr>
     in case lift (get_dimension env s3 func) of
          Inl e \<Rightarrow> (Inl e, w3)
        | Inr func_dim' \<Rightarrow>
            (case lookup s3 ydata of
               Inl e \<Rightarrow> (Inl e, w3)
             | Inr y' \<Rightarrow>
                 if \<not> Some func_dim' = dim y' then (Inl DimensionsNotFound, w3)
                 else (Inr (), w3)))"
proof -
  have "save_dimensions solved (free_symbols func) (quantities w)
          = (Inr (), apply_solution solved (free_symbols func) (quantities w))"
    using assms(6,7) by (intro save_dimensions_solution distinct_free_symbols)
  with assms(1-5) show ?thesis
    by (simp add: check_dimension_def Let_def lift_def)
qed

lemma check_dimension_solver_once:
  assumes "try_get_dimension env (quantities w) func = Inr func_dim"
    and "lookup (quantities w) ydata = Inr y"
    and "func_dim \<noteq> dim y"
    and "\<forall>q\<in>set (free_symbols func). q < length (quantities w)"
    and "check_dimension env func ydata params w = (r, w')"
  shows "count_list (calls w') DimSolve = count_list (calls w) DimSolve + 1
       \<and> count_list (calls w') FittingFit = count_list (calls w) FittingFit"
proof -
  from known_dimensions_total [OF assms(4)]
  obtain known where
    "known_dimensions (quantities w) params (free_symbols func) Map.empty = Inr known"
    by blast
  with assms(1,2,3,5) show ?thesis
    by (auto simp: check_dimension_def Let_def split: sum.splits prod.splits if_splits)
qed

lemma fit_calls:
  assumes "fit env func xdata ydata params opts False w = (r, w')"
    and "check_dimension env func ydata params w = (r0, w0)"
  shows "count_list (calls w') DimSolve = count_list (calls w0) DimSolve"
    and "r0 = Inl e \<Longrightarrow> r = Inl e \<and> w' = w0"
    and "\<forall>a<length (quantities w0).
            dim (quantities w' ! a) = dim (quantities w0 ! a)
          \<and> prefer_unit (quantities w' ! a) = prefer_unit (quantities w0 ! a)"
  using assms
  by (auto simp: fit_def Let_def split: sum.splits prod.splits dest!: save_results_frame)

text \<open>
  Claim C5. \<open>fit\<close> with dimension checking enabled, when the dimension of the function
  (absent when computing it raised a \<open>ValueError\<close> or \<open>RuntimeError\<close>) is not the
  dimension of the ydata and every symbol of the function is a Quantity. The dimension
  solver is then called exactly once, whatever the outcome. When it fails, \<open>fit\<close> fails
  with its exception, no quantity is changed and the fitting backend is not called. When it
  succeeds with a dimension for every symbol, every symbol of the function whose dimension
  differs from the solved one gets the solved dimension and loses its preferred unit, and
  no other dimension or preferred unit changes; if the dimension of the function, computed
  again, still is not the dimension of the ydata, \<open>fit\<close> fails with the error of line 264,
  the fitting backend is not called, and the store is as the solution left it.
\<close>

theorem fit_solves_dimensions_once:
  fixes env :: "('n, 'd, 'u) collab"
  assumes "try_get_dimension env s func = Inr func_dim"
    and "lookup s ydata = Inr y"
    and "func_dim \<noteq> dim y"
    and "\<forall>q\<in>set (free_symbols func). q < length s"
    and "fit env func xdata ydata params opts False \<lparr>quantities = s, calls = cs\<rparr> = (r, w')"
  shows "count_list (calls w') DimSolve = count_list cs DimSolve + 1
     \<and> (\<forall>known x.
           known_dimensions s params (free_symbols func) Map.empty = Inr known
         \<and> dim_solve env s func (dim y) known = Inl x
         \<longrightarrow> r = Inl (Raised x) \<and> quantities w' = s
           \<and> count_list (calls w') FittingFit = count_list cs FittingFit)
     \<and> (\<forall>known solved.
           known_dimensions s params (free_symbols func) Map.empty = Inr known
         \<and> dim_solve env s func (dim y) known = Inr solved
         \<and> (\<forall>q\<in>set (free_symbols func). solved (name (s ! q)) \<noteq> None)
         \<longrightarrow> (\<forall>a<length s.
                 dim (quantities w' ! a) = dim (apply_solution solved (free_symbols func) s ! a)
               \<and> prefer_unit (quantities w' ! a)
                   = prefer_unit (apply_solution solved (free_symbols func) s ! a))
           \<and> (\<forall>d y'.
                 get_dimension env (apply_solution solved (free_symbols func) s) func = Inr d
               \<and> lookup (apply_solution solved (free_symbols func) s) ydata = Inr y'
               \<and> Some d \<noteq> dim y'
               \<longrightarrow> r = Inl DimensionsNotFound
                 \<and> quantities w' = apply_solution solved (free_symbols func) s
                 \<and> count_list (calls w') FittingFit = count_list cs FittingFit))"
proof -
  let ?w = "\<lparr>quantities = s, calls = cs\<rparr> :: ('n, 'd, 'u) world"
  obtain r0 w0 where chk: "check_dimension env func ydata params ?w = (r0, w0)"
    by (cases "check_dimension env func ydata params ?w")
  have once: "count_list (calls w') DimSolve = count_list cs DimSolve + 1"
    using check_dimension_solver_once [of env ?w func func_dim ydata y params r0 w0]
      fit_calls(1) [OF assms(5) chk] assms(1-4) chk
    by simp
  have unsolved: "r = Inl (Raised x) \<and> quantities w' = s
           \<and> count_list (calls w') FittingFit = count_list cs FittingFit"
    if "known_dimensions s params (free_symbols func) Map.empty = Inr known"
      and "dim_solve env s func (dim y) known = Inl x" for known x
  proof -
    from check_dimension_unsolved [of env ?w func func_dim ydata y params known x] assms(1-3) that
    have "check_dimension env func ydata params ?w
            = (Inl (Raised x), ?w\<lparr>calls := calls ?w @ [GetDimension, DimSolve]\<rparr>)"
      by simp
    with assms(5) show ?thesis
      by (auto simp: fit_def)
  qed
  have solved: "(\<forall>a<length s.
                 dim (quantities w' ! a) = dim (apply_solution solved (free_symbols func) s ! a)
               \<and> prefer_unit (quantities w' ! a)
                   = prefer_unit (apply_solution solved (free_symbols func) s ! a))
           \<and> (\<forall>d y'.
                 get_dimension env (apply_solution solved (free_symbols func) s) func = Inr d
               \<and> lookup (apply_solution solved (free_symbols func) s) ydata = Inr y'
               \<and> Some d \<noteq> dim y'
               \<longrightarrow> r = Inl DimensionsNotFound
                 \<and> quantities w' = apply_solution solved (free_symbols func) s
                 \<and> count_list (calls w') FittingFit = count_list cs FittingFit)"
    if k: "known_dimensions s params (free_symbols func) Map.empty = Inr known"
      and d: "dim_solve env s func (dim y) known = Inr solved"
      and c: "\<forall>q\<in>set (free_symbols func). solved (name (s ! q)) \<noteq> None" for known solved
  proof -
    let ?s3 = "apply_solution solved (free_symbols func) s"
    let ?w3 = "\<lparr>quantities = ?s3, calls = cs @ [GetDimension, DimSolve, GetDimension]\<rparr>
                 :: ('n, 'd, 'u) world"
    from check_dimension_solved [of env ?w func func_dim ydata y params known solved]
      assms(1-4) k d c chk
    have eq: "(r0, w0) =
       (case lift (get_dimension env ?s3 func) of
          Inl e \<Rightarrow> (Inl e, ?w3)
        | Inr func_dim' \<Rightarrow>
            (case lookup ?s3 ydata of
               Inl e \<Rightarrow> (Inl e, ?w3)
             | Inr y' \<Rightarrow>
                 if \<not> Some func_dim' = dim y' then (Inl DimensionsNotFound, ?w3)
                 else (Inr (), ?w3)))"
      by (simp add: Let_def)
    then have w0: "w0 = ?w3"
      by (auto split: sum.splits if_splits)
    have 1: "\<forall>a<length s.
                 dim (quantities w' ! a) = dim (?s3 ! a)
               \<and> prefer_unit (quantities w' ! a) = prefer_unit (?s3 ! a)"
      using fit_calls(3) [OF assms(5) chk] w0 by (simp add: apply_solution_length)
    have 2: "r = Inl DimensionsNotFound \<and> quantities w' = ?s3
                 \<and> count_list (calls w') FittingFit = count_list cs FittingFit"
      if "get_dimension env ?s3 func = Inr d'" and "lookup ?s3 ydata = Inr y'"
        and "Some d' \<noteq> dim y'" for d' y'
    proof -
      from eq that have "r0 = Inl DimensionsNotFound" by (simp add: lift_def)
      with fit_calls(2) [OF assms(5) chk] w0 show ?thesis by simp
    qed
    from 1 2 show ?thesis by blast
  qed
  from once unsolved solved show ?thesis by blast
qed

text \<open>
  The fit of \<open>k * x\<close> to \<open>q\<close>: the parameter \<open>k\<close> has no dimension yet, the solver finds
  that it is dimensionless, and the fit goes on. With the solver that answers wrongly the
  fit fails after the one call.
\<close>

theorem fit_solves_dimensions_once_witness:
  "try_get_dimension demo_env demo_store (Mul (Sym 2) (Sym 0)) = Inr None
   \<and> lookup demo_store 1 = Inr (demo_store ! 1)
   \<and> dim (demo_store ! 1) = Some [1, 0]
   \<and> (\<exists>w'. fit demo_env (Mul (Sym 2) (Sym 0)) [0] 1 [2] demo_options False demo_world
               = (Inr (), w')
          \<and> count_list (calls w') DimSolve = 1
          \<and> dim (quantities w' ! 2) = Some [0, 0])
   \<and> (\<exists>w'. fit demo_env_wrong_solver (Mul (Sym 2) (Sym 0)) [0] 1 [2] demo_options False
               demo_world = (Inl DimensionsNotFound, w')
          \<and> count_list (calls w') DimSolve = 1
          \<and> count_list (calls w') FittingFit = 0
          \<and> dim (quantities w' ! 2) = Some [1, 0])"
proof -
  let ?f = "Mul (Sym 2) (Sym 0)"
  let ?known = "[''x'' \<mapsto> Some [1, 0 :: int]]"
  let ?good = "[''x'' \<mapsto> [1, 0 :: int], ''k'' \<mapsto> [0, 0]]"
  let ?bad = "[''x'' \<mapsto> [1, 0 :: int], ''k'' \<mapsto> [1, 0]]"
  have fs: "free_symbols ?f = [2, 0]"
    by (simp add: free_symbols_def)
  have t1: "try_get_dimension demo_env demo_store ?f = Inr None"
    and t2: "try_get_dimension demo_env_wrong_solver demo_store ?f = Inr None"
    by (simp_all add: try_get_dimension_def demo_env_wrong_solver_def demo_env_def
          demo_store_def demo_quantity_def Quantity_def)
  have y: "lookup demo_store 1 = Inr (demo_store ! 1)"
    by (simp add: lookup_def demo_store_def)
  have dy: "dim (demo_store ! 1) = Some [1, 0]"
    by (simp add: demo_store_def demo_quantity_def)
  have ne: "None \<noteq> dim (demo_store ! 1)"
    using dy by simp
  have valid: "\<forall>q\<in>set (free_symbols ?f). q < length demo_store"
    by (simp add: fs demo_store_def)
  have known: "known_dimensions demo_store [2] (free_symbols ?f) Map.empty = Inr ?known"
    by (simp add: fs lookup_def demo_store_def demo_quantity_def)
  have good: "dim_solve demo_env demo_store ?f (dim (demo_store ! 1)) ?known = Inr ?good"
    by (simp add: demo_env_def demo_dim_solve_def demo_store_def demo_quantity_def Quantity_def)
  have bad: "dim_solve demo_env_wrong_solver demo_store ?f (dim (demo_store ! 1)) ?known
               = Inr ?bad"
    by (simp add: demo_env_wrong_solver_def)
  have cg: "\<forall>q\<in>set (free_symbols ?f). ?good (name (demo_store ! q)) \<noteq> None"
    and cb: "\<forall>q\<in>set (free_symbols ?f). ?bad (name (demo_store ! q)) \<noteq> None"
    by (simp_all add: fs demo_store_def demo_quantity_def Quantity_def)
  have k_good: "dim (apply_solution ?good (free_symbols ?f) demo_store ! 2) = Some [0, 0]"
    and k_bad: "dim (apply_solution ?bad (free_symbols ?f) demo_store ! 2) = Some [1, 0]"
    by (simp_all add: apply_solution_nth fs demo_store_def demo_quantity_def Quantity_def)
  have ok: "fst (fit demo_env ?f [0] 1 [2] demo_options False demo_world) = Inr ()"
    by (simp add: fit_def check_dimension_def try_get_dimension_def lookup_def lift_def
        demo_world_def demo_env_def demo_store_def demo_quantity_def demo_dim_solve_def
        Quantity_def scalar_def free_symbols_def Let_def)
  then obtain w1 where run1: "fit demo_env ?f [0] 1 [2] demo_options False
      \<lparr>quantities = demo_store, calls = []\<rparr> = (Inr (), w1)"
    by (cases "fit demo_env ?f [0] 1 [2] demo_options False demo_world")
       (simp add: demo_world_def)
  obtain r2 w2 where run2: "fit demo_env_wrong_solver ?f [0] 1 [2] demo_options False
      \<lparr>quantities = demo_store, calls = []\<rparr> = (r2, w2)"
    by (cases "fit demo_env_wrong_solver ?f [0] 1 [2] demo_options False
      \<lparr>quantities = demo_store, calls = []\<rparr>")
  have gd: "get_dimension demo_env_wrong_solver
              (apply_solution ?bad (free_symbols ?f) demo_store) ?f = Inr [2, 0]"
    by (simp add: demo_env_wrong_solver_def demo_env_def apply_solution_nth
          apply_solution_length fs demo_store_def demo_quantity_def Quantity_def)
  have ly: "lookup (apply_solution ?bad (free_symbols ?f) demo_store) 1
              = Inr (demo_store ! 1)"
    by (simp add: lookup_def apply_solution_nth apply_solution_length fs demo_store_def
          demo_quantity_def Quantity_def)
  have len: "2 < length demo_store"
    by (simp add: demo_store_def)
  note first = fit_solves_dimensions_once [OF t1 y ne valid run1]
  note second = fit_solves_dimensions_once [OF t2 y ne valid run2]
  from first have c1: "count_list (calls w1) DimSolve = count_list [] DimSolve + 1"
    by (rule conjunct1)
  from first known good cg
  have "\<forall>a<length demo_store.
          dim (quantities w1 ! a) = dim (apply_solution ?good (free_symbols ?f) demo_store ! a)
        \<and> prefer_unit (quantities w1 ! a)
            = prefer_unit (apply_solution ?good (free_symbols ?f) demo_store ! a)"
    by blast
  with len k_good have d1: "dim (quantities w1 ! 2) = Some [0, 0]"
    by simp
  from c1 d1
  have A: "count_list (calls w1) DimSolve = 1 \<and> dim (quantities w1 ! 2) = Some [0, 0]"
    by simp
  from second have c2: "count_list (calls w2) DimSolve = count_list [] DimSolve + 1"
    by (rule conjunct1)
  from second known bad cb
  have s2: "(\<forall>a<length demo_store.
          dim (quantities w2 ! a) = dim (apply_solution ?bad (free_symbols ?f) demo_store ! a)
        \<and> prefer_unit (quantities w2 ! a)
            = prefer_unit (apply_solution ?bad (free_symbols ?f) demo_store ! a))
      \<and> (\<forall>d y'.
            get_dimension demo_env_wrong_solver
               (apply_solution ?bad (free_symbols ?f) demo_store) ?f = Inr d
          \<and> lookup (apply_solution ?bad (free_symbols ?f) demo_store) 1 = Inr y'
          \<and> Some d \<noteq> dim y'
          \<longrightarrow> r2 = Inl DimensionsNotFound
            \<and> quantities w2 = apply_solution ?bad (free_symbols ?f) demo_store
            \<and> count_list (calls w2) FittingFit = count_list [] FittingFit)"
    by blast
  from s2 len k_bad have d2: "dim (quantities w2 ! 2) = Some [1, 0]"
    by simp
  have "Some [2, 0] \<noteq> dim (demo_store ! 1)"
    using dy by simp
  with s2 gd ly
  have "r2 = Inl DimensionsNotFound
      \<and> count_list (calls w2) FittingFit = count_list [] FittingFit"
    by blast
  with c2 d2
  have B: "r2 = Inl DimensionsNotFound \<and> count_list (calls w2) DimSolve = 1
         \<and> count_list (calls w2) FittingFit = 0 \<and> dim (quantities w2 ! 2) = Some [1, 0]"
    by simp
  from t1 y dy run1 run2 A B show ?thesis
    by (auto simp: demo_world_def)
qed

section \<open>The claim about the shared default list\<close>

text \<open>
  Claim C10. Two calls of \<^verbatim>\<open>_find_all_dependencies\<close> with the same arguments and without
  the argument \<open>ignore\<close>, as \<open>plot\<close> makes them, for \<open>y = q + 1\<close> and \<open>x\<close>, where
  \<open>q = x * 2\<close>. The first call starts with the default list as it is when the module is
  loaded; it unpacks \<open>q\<close>, finds \<open>x\<close> in the result, and leaves \<open>q\<close> in the default list.
  The second call starts with that list, skips \<open>q\<close> and returns \<open>y\<close> as it was given:
  the result differs from the first, and the dependency on \<open>x\<close> found by the first call is
  missed.
\<close>

theorem find_all_dependencies_shared_default:
  "find_all_dependencies_default demo_store (Add (Sym 1) (Num 1)) 0 default_ignore_at_load
     = (Inr (Add (Mul (Sym 0) (Num 2)) (Num 1)), [1])
   \<and> find_all_dependencies_default demo_store (Add (Sym 1) (Num 1)) 0 [1]
     = (Inr (Add (Sym 1) (Num 1)), [1])
   \<and> 0 \<in> set (free_symbols (Add (Mul (Sym 0) (Num 2)) (Num 1)))
   \<and> 0 \<notin> set (free_symbols (Add (Sym 1) (Num 1)))"
  by (simp add: find_all_dependencies_default_def default_ignore_at_load_def lookup_def
        free_symbols_def demo_store_def demo_quantity_def Quantity_def)

end
